theory Spec2Isabelle
  imports Main "HOL-Library.Word"
begin

section \<open>Go values used by the Linode client\<close>

text \<open>
  Go's \<open>int\<close> on the 64-bit targets the server is built for: a 64-bit two's complement
  integer. \<open>+\<close> wraps, comparisons are the signed ones (\<open><s\<close>), \<open>sint\<close> reads the value.
\<close>

type_synonym go_int = "64 word"

text \<open>\<open>time.Duration\<close> counts nanoseconds.\<close>

type_synonym Duration = int

definition Second :: Duration where
  "Second = 1000000000"

text \<open>The single quote of the Go format strings.\<close>

definition quote :: string where
  "quote = [CHR 0x27]"

subsection \<open>strconv.Itoa and the \<open>%d\<close> verb\<close>

fun digits :: "nat \<Rightarrow> string" where
  "digits n =
     (if n < 10 then [char_of (48 + n)]
      else digits (n div 10) @ [char_of (48 + n mod 10)])"

declare digits.simps [simp del]

definition Itoa :: "go_int \<Rightarrow> string" where
  "Itoa i = (if sint i < 0 then CHR ''-'' # digits (nat (- sint i)) else digits (nat (sint i)))"

subsection \<open>strings.HasPrefix and strings.Join\<close>

fun HasPrefix :: "string \<Rightarrow> string \<Rightarrow> bool" where
  "HasPrefix s [] = True"
| "HasPrefix [] (p # ps) = False"
| "HasPrefix (c # s) (p # ps) = (c = p \<and> HasPrefix s ps)"

fun Join :: "string list \<Rightarrow> string \<Rightarrow> string" where
  "Join [] sep = []"
| "Join [x] sep = x"
| "Join (x # y # ys) sep = x @ sep @ Join (y # ys) sep"

section \<open>Data model (linode.go)\<close>

record ErrorEntry =
  Field :: string
  Reason :: string

record LinodeError =
  Errors :: "ErrorEntry list"
  isAuthError :: bool
  isPermissionsError :: bool

record Specs =
  Disk :: go_int
  Memory :: go_int
  VCPUs :: go_int
  Transfer :: go_int

text \<open>\<open>LinodeStatus\<close> is a Go string type; the JSON decoder accepts any string.\<close>

type_synonym LinodeStatus = string

definition LinodeStatusRunning :: LinodeStatus where
  "LinodeStatusRunning = ''running''"

definition LinodeStatusProvisioning :: LinodeStatus where
  "LinodeStatusProvisioning = ''provisioning''"

record LinodeInfo =
  li_ID :: go_int
  li_Region :: string
  li_Image :: string
  li_IPv4 :: "string list"
  li_IPv6 :: string
  li_Label :: string
  li_Group :: string
  li_Type :: string
  li_Status :: LinodeStatus
  li_CreatedAt :: string
  li_Updated :: string
  li_Hypervisor :: string
  li_Specs :: Specs

record StackScript =
  ss_ID :: go_int
  ss_Label :: string
  ss_Description :: string
  ss_Images :: "string list"
  ss_IsPublic :: bool

text \<open>
  The values of a \<open>map[string]interface{}\<close> that \<open>makeStackScriptParams\<close> stores: Go
  strings, the untyped constants 0 and 1 (of type \<open>int\<close>), and the port numbers of the
  request messages. The message types live in package \<open>protoapi\<close>, which is not part of
  these sources; their ports are taken as 32-bit unsigned numbers.
\<close>

datatype param_value = StrV string | IntV go_int | PortV "32 word"

type_synonym params = "string \<rightharpoonup> param_value"

text \<open>The HTTP client's settings, and the API entry point that owns it.\<close>

record client =
  AuthToken :: string
  Timeout :: Duration
  ClientHeader :: "(string \<times> string) list"

record LinodeAPI =
  apiKey :: string
  api_client :: client

record LinodeInstanceBuilder =
  b_api :: LinodeAPI
  b_Region :: string
  b_Type :: string
  b_Label :: string
  b_Group :: string
  b_RootPass :: string
  b_AuthorizedKeys :: "string list"
  b_StackscriptID :: go_int
  b_StackscriptData :: "params option"
  b_BackupID :: go_int
  b_Image :: string
  b_BackupsEnabled :: bool
  b_Booted :: bool

record LinodeInstanceRebuilder =
  r_api :: LinodeAPI
  r_id :: go_int
  r_RootPass :: string
  r_AuthorizedKeys :: "string list"
  r_StackscriptID :: go_int
  r_StackscriptData :: "params option"
  r_Image :: string
  r_Booted :: bool

subsection \<open>Errors\<close>

text \<open>
  A Go \<open>error\<close> is one of: a \<open>*LinodeError\<close>; a value made by \<open>errors.New\<close> or
  \<open>errors.Errorf\<close> (a message); a value made by \<open>errors.Wrapf\<close> (a cause and a
  message); or an error of the HTTP library (a message).
\<close>

datatype error =
    LinodeErr LinodeError
  | Fundamental string
  | WithMessage error string
  | TransportErr string

fun entries_text :: "ErrorEntry list \<Rightarrow> string" where
  "entries_text [] = []"
| "entries_text (e # es) =
     (if length (Field e) > 0
      then Reason e @ '' (field '' @ quote @ Field e @ quote @ '')''
      else Reason e)
     @ (if es \<noteq> [] then '';'' else []) @ entries_text es"

fun Error :: "error \<Rightarrow> string" where
  "Error (LinodeErr e) = entries_text (Errors e)"
| "Error (Fundamental msg) = msg"
| "Error (WithMessage cause msg) = msg @ '': '' @ Error cause"
| "Error (TransportErr msg) = msg"

definition Wrapf :: "error \<Rightarrow> string \<Rightarrow> error" where
  "Wrapf cause msg = WithMessage cause msg"

subsection \<open>Paged envelopes (the \<open>paginatedResult\<close> implementations)\<close>

record 'a paginated =
  Pages :: go_int
  Results :: go_int
  Data :: "'a list"
  Page :: go_int

section \<open>Requests, replies and the world (linode\_client.go)\<close>

datatype body = NoBody | CreateBody LinodeInstanceBuilder | RebuildBody LinodeInstanceRebuilder

text \<open>The object a request decodes a successful reply into (\<open>SetResult\<close>, \<open>r.Result = t\<close>).\<close>

datatype result_target =
    NoTarget | DummyTarget | InfoTarget | InfoListTarget | InfoPageTarget
  | ScriptListTarget | ScriptPageTarget

record request =
  Token :: string
  Body :: body
  Result :: result_target
  QueryParam :: "(string \<times> string) list"
  Header :: "(string \<times> string) list"

text \<open>
  Values of type \<open>interface{}\<close>: what \<open>response.Result()\<close> holds after decoding,
  and the item slices that \<open>data()\<close> returns.
\<close>

datatype payload =
    DummyP
  | InfoP LinodeInfo
  | InfoPageP "LinodeInfo paginated"
  | ScriptPageP "StackScript paginated"
  | InfoListP "LinodeInfo list"
  | ScriptListP "StackScript list"

text \<open>What \<open>response.Error()\<close> holds: nothing, a \<open>*LinodeError\<close>, or another object.\<close>

datatype error_object = NoErrorObject | LinodeErrorObject LinodeError | OtherErrorObject string

record response =
  StatusCode :: go_int
  ResultOf :: payload
  ErrorOf :: error_object

text \<open>The two results of \<open>r.Get\<close>, \<open>r.Post\<close>, ...: a response and an error.\<close>

datatype reply = Failed "response option" error | Responded response

text \<open>The wire formats of the replies to the caller (package \<open>protoapi\<close>).\<close>

record LinodeInstance =
  pi_Id :: "64 word"
  pi_Label :: string
  pi_Group :: string
  pi_Region :: string
  pi_Plan :: string
  pi_Image :: string
  pi_Ipv4 :: "string list"
  pi_Ipv6 :: "string list"
  pi_Status :: "32 word"
  pi_CreatedAt :: string
  pi_UpdatedAt :: string
  pi_Hypervisor :: string
  pi_Disk :: "64 word"
  pi_Memory :: "64 word"
  pi_Vcpus :: "32 word"
  pi_Transfer :: "64 word"

record LinodeStackScript =
  ps_Id :: "64 word"
  ps_Label :: string
  ps_Description :: string

record proto_error =
  Details :: "ErrorEntry list"
  Message :: "string option"

datatype Response =
    CreateTunnelInstance LinodeInstance
  | CreateTunnelError proto_error
  | RebuildTunnelInstance LinodeInstance
  | RebuildTunnelError proto_error
  | DestroyTunnelOK
  | DestroyTunnelError proto_error
  | TunnelStatusInstance LinodeInstance
  | TunnelStatusError proto_error
  | ListInstancesOK "LinodeInstance list"
  | ListInstancesError proto_error
  | ListStackScriptsOK "LinodeStackScript list"
  | ListStackScriptsError proto_error

text \<open>
  Everything an operation does to the outside, in order: a network call (method, URL and
  the prepared request), a sleep, and the two calls of the \<open>aProtobufWriter\<close> interface.
  Log lines are not recorded.
\<close>

datatype event =
    NetCall string string request
  | Slept Duration
  | WroteMessage Response
  | WroteError Response error

fun is_NetCall :: "event \<Rightarrow> bool" where
  "is_NetCall (NetCall m u r) = True"
| "is_NetCall e = False"

fun is_Write :: "event \<Rightarrow> bool" where
  "is_Write (WroteMessage m) = True"
| "is_Write (WroteError m e) = True"
| "is_Write e = False"

text \<open>
  The world: the provider answers the \<open>n\<close>-th network call of a run (counted from 0)
  given its method, URL and request; the writer's implementation returns an error or
  nil for each message; \<open>status_value s\<close> stands for the table lookup
  \<open>protoapi.LinodeInstance_Status_value[strings.ToUpper(s)]\<close> of a package that is
  not part of these sources; \<open>trace\<close> is what has happened so far.
\<close>

record world =
  provider :: "nat \<Rightarrow> string \<Rightarrow> string \<Rightarrow> request \<Rightarrow> reply"
  write_result :: "Response \<Rightarrow> error option"
  status_value :: "string \<Rightarrow> 32 word"
  trace :: "event list"

definition ncalls :: "world \<Rightarrow> nat" where
  "ncalls w = length (filter is_NetCall (trace w))"

definition emit :: "event \<Rightarrow> world \<Rightarrow> world" where
  "emit e w = w\<lparr>trace := trace w @ [e]\<rparr>"

text \<open>A Go call either returns or panics.\<close>

datatype 'a outcome = Panic string | Return 'a

definition linodeAPIBaseURL :: string where
  "linodeAPIBaseURL = ''https://api.linode.com/v4''"

record apiResult =
  data :: "payload option"
  err :: "error option"
  resp :: "response option"

definition execRequest :: "string \<Rightarrow> string \<Rightarrow> request \<Rightarrow> world \<Rightarrow> reply \<times> world" where
  "execRequest method url r w = (provider w (ncalls w) method url r, emit (NetCall method url r) w)"

definition api_error_text :: "string \<Rightarrow> string \<Rightarrow> string \<Rightarrow> string" where
  "api_error_text method endpoint detail =
     ''API error ('' @ method @ '' '' @ quote @ endpoint @ quote @ ''): '' @ detail"

definition linodeSimpleExec ::
  "string \<Rightarrow> string \<Rightarrow> request \<Rightarrow> world \<Rightarrow> apiResult outcome \<times> world" where
  "linodeSimpleExec method endpoint r w =
     (if method \<notin> set [''GET'', ''POST'', ''DELETE'', ''HEAD'', ''PUT'', ''PATCH'']
      then (Panic (''Unknown request method: '' @ method), w)
      else
        case execRequest method (linodeAPIBaseURL @ endpoint) r w of
          (Failed response e, w') \<Rightarrow>
            (Return \<lparr>data = None,
                     err = Some (Wrapf e (method @ '' request ('' @ quote @ endpoint @ quote @ '') failed'')),
                     resp = response\<rparr>, w')
        | (Responded response, w') \<Rightarrow>
            if 299 <s StatusCode response then
              (Return \<lparr>data = None,
                       err = Some
                         (case ErrorOf response of
                            LinodeErrorObject linodeErr \<Rightarrow>
                              LinodeErr (linodeErr\<lparr>isAuthError := (StatusCode response = 401),
                                                   isPermissionsError := (StatusCode response = 403)\<rparr>)
                          | OtherErrorObject errObject \<Rightarrow>
                              Fundamental (api_error_text method endpoint errObject)
                          | NoErrorObject \<Rightarrow>
                              Fundamental (api_error_text method endpoint
                                             ''No error object, details missing'')),
                       resp = Some response\<rparr>, w')
            else
              (Return \<lparr>data = Some (ResultOf response), err = None, resp = Some response\<rparr>, w'))"

subsection \<open>The pagination cursor\<close>

record pageIterator =
  it_request :: request
  it_endpoint :: string
  it_page :: go_int

definition SetQueryParam :: "string \<Rightarrow> string \<Rightarrow> request \<Rightarrow> request" where
  "SetQueryParam k v r = r\<lparr>QueryParam := (k, v) # filter (\<lambda>kv. fst kv \<noteq> k) (QueryParam r)\<rparr>"

definition SetHeader :: "string \<Rightarrow> string \<Rightarrow> request \<Rightarrow> request" where
  "SetHeader k v r = r\<lparr>Header := (k, v) # filter (\<lambda>kv. fst kv \<noteq> k) (Header r)\<rparr>"

definition SetResult :: "result_target \<Rightarrow> request \<Rightarrow> request" where
  "SetResult t r = r\<lparr>Result := t\<rparr>"

definition SetBody :: "body \<Rightarrow> request \<Rightarrow> request" where
  "SetBody b r = r\<lparr>Body := b\<rparr>"

definition linodePOST :: "string \<Rightarrow> request \<Rightarrow> world \<Rightarrow> apiResult outcome \<times> world" where
  "linodePOST endpoint r = linodeSimpleExec ''POST'' endpoint r"

definition linodeDELETE :: "string \<Rightarrow> request \<Rightarrow> world \<Rightarrow> apiResult outcome \<times> world" where
  "linodeDELETE endpoint r = linodeSimpleExec ''DELETE'' endpoint r"

definition linodeGET :: "string \<Rightarrow> request \<Rightarrow> world \<Rightarrow> apiResult outcome \<times> world" where
  "linodeGET endpoint r = linodeSimpleExec ''GET'' endpoint r"

definition linodePaginatedGET :: "string \<Rightarrow> request \<Rightarrow> result_target \<Rightarrow> pageIterator" where
  "linodePaginatedGET endpoint r t =
     \<lparr>it_request = r\<lparr>Result := t\<rparr>, it_endpoint = endpoint, it_page = 1\<rparr>"

text \<open>The type assertion \<open>response.Result().(paginatedResult)\<close> with its two accessors.\<close>

fun pageCount :: "payload \<Rightarrow> go_int option" where
  "pageCount (InfoPageP e) = Some (Pages e)"
| "pageCount (ScriptPageP e) = Some (Pages e)"
| "pageCount x = None"

fun page_data :: "payload \<Rightarrow> payload" where
  "page_data (InfoPageP e) = InfoListP (Data e)"
| "page_data (ScriptPageP e) = ScriptListP (Data e)"
| "page_data x = x"

text \<open>
  \<open>next\<close> mutates the iterator (its page counter and the query of its request), so the
  model returns the iterator too.
\<close>

definition "next" ::
  "pageIterator \<Rightarrow> world \<Rightarrow> (apiResult \<times> bool) outcome \<times> pageIterator \<times> world" where
  "next e w =
     (let e1 = (if 1 <s it_page e
                then e\<lparr>it_request := SetQueryParam ''page'' (Itoa (it_page e)) (it_request e)\<rparr>
                else e)
      in case linodeSimpleExec ''GET'' (it_endpoint e1) (it_request e1) w of
           (Panic s, w') \<Rightarrow> (Panic s, e1, w')
         | (Return result, w') \<Rightarrow>
             if err result \<noteq> None then (Return (result, False), e1, w')
             else
               (case resp result of
                  None \<Rightarrow> (Panic ''nil pointer dereference'', e1, w')
                | Some response \<Rightarrow>
                    (case pageCount (ResultOf response) of
                       None \<Rightarrow>
                         (Return (\<lparr>data = None,
                                   err = Some (Fundamental
                                     ''Possible API incompatibility: Unable to parse paginated response''),
                                   resp = Some response\<rparr>, False), e1, w')
                     | Some count \<Rightarrow>
                         (let e2 = e1\<lparr>it_page := it_page e1 + 1\<rparr>;
                              hasMorePages = (it_page e2 <s count)
                          in (Return (\<lparr>data = Some (page_data (ResultOf response)),
                                         err = None,
                                         resp = Some response\<rparr>, hasMorePages), e2, w')))))"

subsection \<open>LinodeAPI (linode.go)\<close>

definition NewLinodeAPI :: "string \<Rightarrow> LinodeAPI" where
  "NewLinodeAPI key =
     \<lparr>apiKey = key,
      api_client = \<lparr>AuthToken = key, Timeout = 60 * Second,
                    ClientHeader = [(''User-Agent'', ''linode_client'')]\<rparr>\<rparr>"

definition R :: "client \<Rightarrow> request" where
  "R c = \<lparr>Token = AuthToken c, Body = NoBody, Result = NoTarget, QueryParam = [],
          Header = ClientHeader c\<rparr>"

definition authedR :: "LinodeAPI \<Rightarrow> request outcome" where
  "authedR e =
     (if length (apiKey e) > 0 then Return (R (api_client e))
      else Panic ''Attempted to perform authenticated request, but this LinodeAPI instance has no API key'')"

definition decode_error :: "string \<Rightarrow> error" where
  "decode_error endpoint = Fundamental (''unable to decode RPC return value ('' @ endpoint @ '')'')"

subsection \<open>Termination of the listing loops\<close>

text \<open>
  A listing loop goes on only while the page counter, after its increment, is below the
  page count of the last envelope. The counter is a 64-bit integer, so it is below the
  largest \<open>int\<close> then, and the distance to that largest value shrinks.
\<close>

definition max_go_int :: go_int where
  "max_go_int = 9223372036854775807"

definition remaining :: "go_int \<Rightarrow> nat" where
  "remaining p = (if p = max_go_int then 2 ^ 64 else unat (max_go_int - p))"

lemma sless_not_max: "p <s c \<Longrightarrow> p \<noteq> max_go_int"
  by (auto simp: word_sless_alt max_go_int_def) (use sint_lt [of c] in simp)

lemma remaining_step: "p + 1 \<noteq> max_go_int \<Longrightarrow> remaining (p + 1) < remaining p"
proof (cases "p = max_go_int")
  case True
  assume "p + 1 \<noteq> max_go_int"
  then show ?thesis using True unsigned_less [of "max_go_int - (p + 1)", where ?'a = nat]
    by (simp add: remaining_def)
next
  case False
  assume a: "p + 1 \<noteq> max_go_int"
  from False have nz: "max_go_int - p \<noteq> 0" by simp
  have eq: "max_go_int - (p + 1) = (max_go_int - p) - 1" by simp
  have "unat ((max_go_int - p) - 1) = unat (max_go_int - p) - 1"
    using nz by (rule unat_minus_one)
  then have "unat (max_go_int - (p + 1)) = unat (max_go_int - p) - 1"
    by (simp only: eq)
  moreover have "unat (max_go_int - p) \<noteq> 0" using nz unat_gt_0 [of "max_go_int - p"] by simp
  ultimately show ?thesis using False a by (simp add: remaining_def)
qed

lemma next_more:
  "next e w = (Return (item, True), e', w') \<Longrightarrow> it_page e' = it_page e + 1 \<and> it_page e' \<noteq> max_go_int"
  by (auto simp: next_def Let_def sless_not_max split: prod.splits outcome.splits if_splits option.splits)

subsection \<open>The listings\<close>

text \<open>The \<open>for\<close> loop of \<open>ListLinodeInstances\<close>; a Go \<open>([]LinodeInfo, error)\<close> is a pair.\<close>

function instances_loop ::
  "pageIterator \<Rightarrow> LinodeInfo list \<Rightarrow> world \<Rightarrow> (LinodeInfo list \<times> error option) outcome \<times> world" where
  "instances_loop iter list w =
     (case next iter w of
        (Panic s, iter', w') \<Rightarrow> (Panic s, w')
      | (Return (item, hasNext), iter', w') \<Rightarrow>
          (case err item of
             Some e \<Rightarrow> (Return (list, Some e), w')
           | None \<Rightarrow>
               (case data item of
                  Some (InfoListP moreItems) \<Rightarrow>
                    if \<not> hasNext then (Return (list @ moreItems, None), w')
                    else instances_loop iter' (list @ moreItems) w'
                | _ \<Rightarrow> (Return (list, Some (decode_error ''/linode/instances'')), w'))))"
  by pat_completeness auto
termination
  apply (relation "measure (\<lambda>(iter, list, w). remaining (it_page iter))")
   apply simp
  apply (auto dest!: next_more [OF sym] intro: remaining_step)
  done

declare instances_loop.simps [simp del]

definition ListLinodeInstances ::
  "LinodeAPI \<Rightarrow> world \<Rightarrow> (LinodeInfo list \<times> error option) outcome \<times> world" where
  "ListLinodeInstances e w =
     (case authedR e of
        Panic s \<Rightarrow> (Panic s, w)
      | Return r0 \<Rightarrow>
          instances_loop
            (linodePaginatedGET ''/linode/instances'' (SetResult InfoListTarget r0) InfoPageTarget)
            [] w)"

function scripts_loop ::
  "pageIterator \<Rightarrow> StackScript list \<Rightarrow> world \<Rightarrow> (StackScript list \<times> error option) outcome \<times> world" where
  "scripts_loop iter list w =
     (case next iter w of
        (Panic s, iter', w') \<Rightarrow> (Panic s, w')
      | (Return (item, hasNext), iter', w') \<Rightarrow>
          (case err item of
             Some e \<Rightarrow> (Return (list, Some e), w')
           | None \<Rightarrow>
               (case data item of
                  Some (ScriptListP moreItems) \<Rightarrow>
                    if \<not> hasNext then (Return (list @ moreItems, None), w')
                    else scripts_loop iter' (list @ moreItems) w'
                | _ \<Rightarrow> (Return (list, Some (decode_error ''/linode/stackscripts'')), w'))))"
  by pat_completeness auto
termination
  apply (relation "measure (\<lambda>(iter, list, w). remaining (it_page iter))")
   apply simp
  apply (auto dest!: next_more [OF sym] intro: remaining_step)
  done

declare scripts_loop.simps [simp del]

definition mine_filter :: string where
  "mine_filter = CHR 0x7B # CHR 0x22 # ''mine'' @ [CHR 0x22] @ '': true}''"

definition ListStackScriptsPrivate ::
  "LinodeAPI \<Rightarrow> world \<Rightarrow> (StackScript list \<times> error option) outcome \<times> world" where
  "ListStackScriptsPrivate e w =
     (case authedR e of
        Panic s \<Rightarrow> (Panic s, w)
      | Return r0 \<Rightarrow>
          scripts_loop
            (linodePaginatedGET ''/linode/stackscripts''
               (SetHeader ''X-Filter'' mine_filter (SetResult ScriptListTarget r0)) ScriptPageTarget)
            [] w)"

subsection \<open>Single-instance calls\<close>

definition QueryLinode :: "LinodeAPI \<Rightarrow> go_int \<Rightarrow> world \<Rightarrow> (error + LinodeInfo) outcome \<times> world" where
  "QueryLinode e linodeID w =
     (let endpoint = ''/linode/instances/'' @ Itoa linodeID in
      case authedR e of
        Panic s \<Rightarrow> (Panic s, w)
      | Return r0 \<Rightarrow>
          (case linodeGET endpoint (SetResult InfoTarget r0) w of
             (Panic s, w') \<Rightarrow> (Panic s, w')
           | (Return result, w') \<Rightarrow>
               (case err result of
                  Some e \<Rightarrow> (Return (Inl e), w')
                | None \<Rightarrow>
                    (case data result of
                       Some (InfoP linodeInfo) \<Rightarrow> (Return (Inr linodeInfo), w')
                     | _ \<Rightarrow> (Return (Inl (decode_error endpoint)), w')))))"

definition DeleteInstance :: "LinodeAPI \<Rightarrow> go_int \<Rightarrow> world \<Rightarrow> error option outcome \<times> world" where
  "DeleteInstance e linodeID w =
     (let endpoint = ''/linode/instances/'' @ Itoa linodeID in
      case authedR e of
        Panic s \<Rightarrow> (Panic s, w)
      | Return r0 \<Rightarrow>
          (case linodeDELETE endpoint (SetResult DummyTarget r0) w of
             (Panic s, w') \<Rightarrow> (Panic s, w')
           | (Return result, w') \<Rightarrow>
               (case err result of
                  None \<Rightarrow> (Return None, w')
                | Some e \<Rightarrow> (Return (Some (Wrapf e ''Unable to delete instance'')), w'))))"

subsection \<open>The builder and the rebuilder\<close>

definition NewInstanceBuilder :: "LinodeAPI \<Rightarrow> string \<Rightarrow> string \<Rightarrow> LinodeInstanceBuilder" where
  "NewInstanceBuilder e region linodeType =
     \<lparr>b_api = e, b_Region = region, b_Type = linodeType, b_Label = [], b_Group = [],
      b_RootPass = [], b_AuthorizedKeys = [], b_StackscriptID = 0, b_StackscriptData = None,
      b_BackupID = 0, b_Image = [], b_BackupsEnabled = False, b_Booted = False\<rparr>"

definition NewInstanceRebuilder :: "LinodeAPI \<Rightarrow> go_int \<Rightarrow> LinodeInstanceRebuilder" where
  "NewInstanceRebuilder e ident =
     \<lparr>r_api = e, r_id = ident, r_RootPass = [], r_AuthorizedKeys = [], r_StackscriptID = 0,
      r_StackscriptData = None, r_Image = [], r_Booted = False\<rparr>"

text \<open>\<open>SetStackscript(id, data...)\<close> is variadic: the list holds the extra arguments.\<close>

definition SetStackscript :: "go_int \<Rightarrow> params list \<Rightarrow> LinodeInstanceBuilder \<Rightarrow> LinodeInstanceBuilder" where
  "SetStackscript ident ds e =
     (let e1 = e\<lparr>b_StackscriptID := ident\<rparr> in
      if length ds > 0 then e1\<lparr>b_StackscriptData := Some (hd ds)\<rparr> else e1)"

definition SetStackscriptR :: "go_int \<Rightarrow> params list \<Rightarrow> LinodeInstanceRebuilder \<Rightarrow> LinodeInstanceRebuilder" where
  "SetStackscriptR ident ds r =
     (let r1 = r\<lparr>r_StackscriptID := ident\<rparr> in
      if length ds > 0 then r1\<lparr>r_StackscriptData := Some (hd ds)\<rparr> else r1)"

definition parse_error :: error where
  "parse_error = Fundamental ''unable to parse RPC result''"

definition Create :: "LinodeInstanceBuilder \<Rightarrow> world \<Rightarrow> (error + LinodeInfo) outcome \<times> world" where
  "Create e w =
     (case authedR (b_api e) of
        Panic s \<Rightarrow> (Panic s, w)
      | Return r0 \<Rightarrow>
          (case linodePOST ''/linode/instances'' (SetResult InfoTarget (SetBody (CreateBody e) r0)) w of
             (Panic s, w') \<Rightarrow> (Panic s, w')
           | (Return result, w') \<Rightarrow>
               (case err result of
                  Some e \<Rightarrow> (Return (Inl e), w')
                | None \<Rightarrow>
                    (case resp result of
                       None \<Rightarrow> (Panic ''nil pointer dereference'', w')
                     | Some response \<Rightarrow>
                         (case ResultOf response of
                            InfoP instance \<Rightarrow> (Return (Inr instance), w')
                          | _ \<Rightarrow> (Return (Inl parse_error), w'))))))"

definition Rebuild :: "LinodeInstanceRebuilder \<Rightarrow> world \<Rightarrow> (error + LinodeInfo) outcome \<times> world" where
  "Rebuild r w =
     (let endpoint = ''/linode/instances/'' @ Itoa (r_id r) @ ''/rebuild'' in
      case authedR (r_api r) of
        Panic s \<Rightarrow> (Panic s, w)
      | Return r0 \<Rightarrow>
          (case linodePOST endpoint (SetResult InfoTarget (SetBody (RebuildBody r) r0)) w of
             (Panic s, w') \<Rightarrow> (Panic s, w')
           | (Return result, w') \<Rightarrow>
               (case err result of
                  Some e \<Rightarrow> (Return (Inl e), w')
                | None \<Rightarrow>
                    (case resp result of
                       None \<Rightarrow> (Panic ''nil pointer dereference'', w')
                     | Some response \<Rightarrow>
                         (case ResultOf response of
                            InfoP instance \<Rightarrow> (Return (Inr instance), w')
                          | _ \<Rightarrow> (Return (Inl parse_error), w'))))))"

section \<open>The operations (protobufLinode)\<close>

subsection \<open>Request messages (package \<open>protoapi\<close>)\<close>

record LinodeAuth =
  AccessToken :: string

record WireguardOptions =
  wg_Port :: "32 word"
  wg_ServerKey :: string
  wg_PeerKeys :: "string list"

record ObfsproxyIPv4Options =
  o4_Port :: "32 word"
  o4_Secret :: string

record ObfsproxyIPv6Options =
  o6_Port :: "32 word"
  o6_Secret :: string

record LinodeCreateTunnelRequest =
  c_Auth :: "LinodeAuth option"
  c_Plan :: string
  c_Region :: string
  c_SshKeys :: "string list"
  c_RootPassword :: string
  c_RegularAccountName :: string
  c_RegularAccountPassword :: string
  c_WireguardOptions :: "WireguardOptions option"
  c_Obfsproxy4Options :: "ObfsproxyIPv4Options option"
  c_Obfsproxy6Options :: "ObfsproxyIPv6Options option"

record LinodeRebuildTunnelRequest =
  rb_Auth :: "LinodeAuth option"
  rb_SshKeys :: "string list"
  rb_RootPassword :: string
  rb_RegularAccountName :: string
  rb_RegularAccountPassword :: string
  rb_WireguardOptions :: "WireguardOptions option"
  rb_Obfsproxy4Options :: "ObfsproxyIPv4Options option"
  rb_Obfsproxy6Options :: "ObfsproxyIPv6Options option"

text \<open>
  The destroy, status, list-instances and list-scripts requests carry the \<open>Auth\<close> field
  only; the operations below take it directly.
\<close>

record protobufLinode =
  instanceLabel :: string
  instanceImage :: string
  instanceScript :: string

definition newProtobufLinode :: protobufLinode where
  "newProtobufLinode =
     \<lparr>instanceLabel = ''hp_instance'', instanceImage = ''linode/debian9'',
      instanceScript = ''freedom_node''\<rparr>"

subsection \<open>The writer, sleeping, and the reply constructors\<close>

definition WriteMessage :: "Response \<Rightarrow> world \<Rightarrow> error option outcome \<times> world" where
  "WriteMessage m w = (Return (write_result w m), emit (WroteMessage m) w)"

definition WriteError :: "Response \<Rightarrow> error \<Rightarrow> world \<Rightarrow> error option outcome \<times> world" where
  "WriteError m e w = (Return (write_result w m), emit (WroteError m e) w)"

definition Sleep :: "Duration \<Rightarrow> world \<Rightarrow> world" where
  "Sleep d w = emit (Slept d) w"

definition createError :: "error \<Rightarrow> proto_error" where
  "createError e =
     (case e of
        LinodeErr linodeErr \<Rightarrow> \<lparr>Details = Errors linodeErr, Message = None\<rparr>
      | _ \<Rightarrow> \<lparr>Details = [], Message = Some (Error e)\<rparr>)"

definition createCreateTunnelOK :: "LinodeInstance \<Rightarrow> Response" where
  "createCreateTunnelOK x = CreateTunnelInstance x"

definition createCreateTunnelErr :: "error \<Rightarrow> Response" where
  "createCreateTunnelErr e = CreateTunnelError (createError e)"

definition createRebuildTunnelOK :: "LinodeInstance \<Rightarrow> Response" where
  "createRebuildTunnelOK x = RebuildTunnelInstance x"

definition createRebuildTunnelErr :: "error \<Rightarrow> Response" where
  "createRebuildTunnelErr e = RebuildTunnelError (createError e)"

definition createDestroyTunnelOK :: Response where
  "createDestroyTunnelOK = DestroyTunnelOK"

definition createDestroyTunnelErr :: "error \<Rightarrow> Response" where
  "createDestroyTunnelErr e = DestroyTunnelError (createError e)"

definition createTunnelStatusOK :: "LinodeInstance \<Rightarrow> Response" where
  "createTunnelStatusOK x = TunnelStatusInstance x"

definition createTunnelStatusErr :: "error \<Rightarrow> Response" where
  "createTunnelStatusErr e = TunnelStatusError (createError e)"

definition createListInstancesOK :: "LinodeInstance list \<Rightarrow> Response" where
  "createListInstancesOK xs = ListInstancesOK xs"

definition createListInstancesErr :: "error \<Rightarrow> Response" where
  "createListInstancesErr e = ListInstancesError (createError e)"

definition createListStackScriptsOK :: "LinodeStackScript list \<Rightarrow> Response" where
  "createListStackScriptsOK xs = ListStackScriptsOK xs"

definition createListStackScriptsErr :: "error \<Rightarrow> Response" where
  "createListStackScriptsErr e = ListStackScriptsError (createError e)"

definition linodeInstanceToProtobuf :: "world \<Rightarrow> LinodeInfo \<Rightarrow> LinodeInstance" where
  "linodeInstanceToProtobuf w instance =
     \<lparr>pi_Id = li_ID instance,
      pi_Label = li_Label instance,
      pi_Group = li_Group instance,
      pi_Region = li_Region instance,
      pi_Plan = li_Type instance,
      pi_Image = li_Image instance,
      pi_Ipv4 = li_IPv4 instance,
      pi_Ipv6 = [li_IPv6 instance],
      pi_Status = status_value w (li_Status instance),
      pi_CreatedAt = li_CreatedAt instance,
      pi_UpdatedAt = li_Updated instance,
      pi_Hypervisor = li_Hypervisor instance,
      pi_Disk = Disk (li_Specs instance),
      pi_Memory = Memory (li_Specs instance),
      pi_Vcpus = ucast (VCPUs (li_Specs instance)),
      pi_Transfer = Transfer (li_Specs instance)\<rparr>"

definition extractAuth :: "LinodeAuth option \<Rightarrow> string" where
  "extractAuth a = (case a of Some auth \<Rightarrow> AccessToken auth | None \<Rightarrow> [])"

subsection \<open>The convergence poller\<close>

definition maxAttempts :: nat where
  "maxAttempts = 20"

definition delay :: Duration where
  "delay = 7 * Second"

definition timeout_error :: error where
  "timeout_error = Fundamental ''Instance took too long to come online''"

text \<open>
  The \<open>for\<close> loop of \<open>awaitUntilRunning\<close>, entered with the current value of the local
  counter \<open>attempt\<close> (which runs from 0 to 20, so a natural number models it).
\<close>

function await_loop ::
  "LinodeAPI \<Rightarrow> go_int \<Rightarrow> nat \<Rightarrow> world \<Rightarrow> (error + LinodeInfo) outcome \<times> world" where
  "await_loop api instanceID attempt w =
     (case QueryLinode api instanceID w of
        (Panic s, w') \<Rightarrow> (Panic s, w')
      | (Return (Inl e), w') \<Rightarrow> (Return (Inl e), w')
      | (Return (Inr instance), w') \<Rightarrow>
          if li_Status instance = LinodeStatusRunning then (Return (Inr instance), w')
          else if attempt + 1 \<ge> maxAttempts then (Return (Inl timeout_error), w')
          else await_loop api instanceID (attempt + 1) (Sleep delay w'))"
  by pat_completeness auto
termination
  by (relation "measure (\<lambda>(api, instanceID, attempt, w). maxAttempts - attempt)") auto

declare await_loop.simps [simp del]

definition awaitUntilRunning ::
  "LinodeAPI \<Rightarrow> go_int \<Rightarrow> world \<Rightarrow> (error + LinodeInfo) outcome \<times> world" where
  "awaitUntilRunning api instanceID w = await_loop api instanceID 0 (Sleep (delay * 2) w)"

subsection \<open>Range loops that keep the address of their variable\<close>

text \<open>
  The sources are written for the Go of their time (there is no module file; the language
  rule changed with Go 1.22 and applies only to modules that ask for it): a
  \<open>for _, x := range xs\<close> statement declares one variable \<open>x\<close> for the whole loop and
  assigns it anew in each iteration, so \<open>&x\<close> is the same address in every iteration.
  Two loops take that address. The model gives the variable a cell of a store and lets
  the loops keep the cell's address, as the code does; a pointer is read through the
  store when the function returns.
\<close>

type_synonym addr = nat

type_synonym 'a store = "addr \<rightharpoonup> 'a"

definition loop_var :: addr where
  "loop_var = 0"

text \<open>
  The loop of \<open>retrieveTunnelInstance\<close>: \<open>instance\<close> is the cell \<open>loop_var\<close>, and
  \<open>tunnelInstances\<close> collects \<open>&instance\<close>.
\<close>

fun collect_tunnels ::
  "string \<Rightarrow> LinodeInfo list \<Rightarrow> LinodeInfo store \<times> addr list \<Rightarrow> LinodeInfo store \<times> addr list" where
  "collect_tunnels name [] st = st"
| "collect_tunnels name (x # xs) (store, tunnelInstances) =
     (let store' = store(loop_var \<mapsto> x) in
      collect_tunnels name xs
        (store',
         if HasPrefix (li_Label x) name then tunnelInstances @ [loop_var] else tunnelInstances))"

definition retrieveTunnelInstance ::
  "LinodeAPI \<Rightarrow> string \<Rightarrow> world \<Rightarrow> (error + LinodeInfo option) outcome \<times> world" where
  "retrieveTunnelInstance api name w =
     (case ListLinodeInstances api w of
        (Panic s, w') \<Rightarrow> (Panic s, w')
      | (Return (instances, Some e), w') \<Rightarrow> (Return (Inl e), w')
      | (Return (instances, None), w') \<Rightarrow>
          (case collect_tunnels name instances (Map.empty, []) of
             (store, tunnelInstances) \<Rightarrow>
               if length tunnelInstances \<ge> 1
               then (Return (Inr (store (tunnelInstances ! 0))), w')
               else (Return (Inr None), w')))"

definition ensureTunnelExists ::
  "LinodeAPI \<Rightarrow> string \<Rightarrow> world \<Rightarrow> (error + LinodeInfo) outcome \<times> world" where
  "ensureTunnelExists api name w =
     (case retrieveTunnelInstance api name w of
        (Panic s, w') \<Rightarrow> (Panic s, w')
      | (Return (Inl e), w') \<Rightarrow> (Return (Inl e), w')
      | (Return (Inr None), w') \<Rightarrow> (Return (Inl (Fundamental ''Tunnel does not exist'')), w')
      | (Return (Inr (Some tunnelInstance)), w') \<Rightarrow> (Return (Inr tunnelInstance), w'))"

definition ensureTunnelDoesNotExist ::
  "LinodeAPI \<Rightarrow> string \<Rightarrow> world \<Rightarrow> error option outcome \<times> world" where
  "ensureTunnelDoesNotExist api name w =
     (case retrieveTunnelInstance api name w of
        (Panic s, w') \<Rightarrow> (Panic s, w')
      | (Return (Inl e), w') \<Rightarrow> (Return (Some e), w')
      | (Return (Inr (Some tunnelInstance)), w') \<Rightarrow>
          (Return (Some (Fundamental ''Tunnel already exists'')), w')
      | (Return (Inr None), w') \<Rightarrow> (Return None, w'))"

subsection \<open>The provisioning parameters\<close>

text \<open>
  The loop of \<open>makeStackScriptParams\<close>: \<open>s\<close> is the cell \<open>loop_var\<close>, and \<open>script\<close>
  is nil or \<open>&s\<close>.
\<close>

fun find_script ::
  "string \<Rightarrow> StackScript list \<Rightarrow> StackScript store \<times> addr option \<Rightarrow> StackScript store \<times> addr option" where
  "find_script scriptName [] st = st"
| "find_script scriptName (x # xs) (store, script) =
     (let store' = store(loop_var \<mapsto> x) in
      find_script scriptName xs
        (store', if ss_Label x = scriptName then Some loop_var else script))"

definition makeStackScriptParams ::
  "LinodeAPI \<Rightarrow> string \<Rightarrow> string \<Rightarrow> string \<Rightarrow> WireguardOptions option \<Rightarrow>
   ObfsproxyIPv4Options option \<Rightarrow> ObfsproxyIPv6Options option \<Rightarrow> world \<Rightarrow>
   (error + StackScript \<times> params) outcome \<times> world" where
  "makeStackScriptParams api scriptName username password wg obfs4 obfs6 w =
     (case ListStackScriptsPrivate api w of
        (Panic s, w') \<Rightarrow> (Panic s, w')
      | (Return (scripts, Some e), w') \<Rightarrow> (Return (Inl e), w')
      | (Return (scripts, None), w') \<Rightarrow>
          (case find_script scriptName scripts (Map.empty, None) of
             (store, None) \<Rightarrow>
               (Return (Inl (Fundamental (''Stackscript is missing: '' @ scriptName))), w')
           | (store, Some script) \<Rightarrow>
               (case store script of
                  None \<Rightarrow> (Panic ''nil pointer dereference'', w')
                | Some pointee \<Rightarrow>
                    (let params0 = Map.empty(''udf_local_user_name'' \<mapsto> StrV username,
                                             ''udf_local_user_password'' \<mapsto> StrV password);
                         params1 =
                           (case wg of
                              Some wgo \<Rightarrow>
                                params0(''udf_enable_wireguard'' \<mapsto> IntV 1,
                                        ''udf_wireguard_port'' \<mapsto> PortV (wg_Port wgo),
                                        ''udf_wireguard_private_key'' \<mapsto> StrV (wg_ServerKey wgo),
                                        ''udf_wireguard_peer_keys'' \<mapsto>
                                          StrV (Join (wg_PeerKeys wgo) '' ''))
                            | None \<Rightarrow> params0(''udf_enable_wireguard'' \<mapsto> IntV 0));
                         params2 =
                           (case obfs4 of
                              Some o4 \<Rightarrow>
                                params1(''udf_enable_obfs4'' \<mapsto> IntV 1,
                                        ''udf_obfs4_port'' \<mapsto> PortV (o4_Port o4),
                                        ''udf_obfs4_secret'' \<mapsto> StrV (o4_Secret o4))
                            | None \<Rightarrow> params1(''udf_enable_obfs4'' \<mapsto> IntV 0));
                         params =
                           (case obfs6 of
                              Some o6 \<Rightarrow>
                                params2(''udf_enable_obfs6'' \<mapsto> IntV 1,
                                        ''udf_obfs6_port'' \<mapsto> PortV (o6_Port o6),
                                        ''udf_obfs6_secret'' \<mapsto> StrV (o6_Secret o6))
                            | None \<Rightarrow> params2(''udf_enable_obfs6'' \<mapsto> IntV 0))
                     in (Return (Inr (pointee, params)), w')))))"

subsection \<open>The setters the operations use\<close>

definition SetLabel :: "string \<Rightarrow> LinodeInstanceBuilder \<Rightarrow> LinodeInstanceBuilder" where
  "SetLabel label e = e\<lparr>b_Label := label\<rparr>"

definition SetAuthorizedKeys :: "string list \<Rightarrow> LinodeInstanceBuilder \<Rightarrow> LinodeInstanceBuilder" where
  "SetAuthorizedKeys keys e = e\<lparr>b_AuthorizedKeys := keys\<rparr>"

definition SetImage :: "string \<Rightarrow> LinodeInstanceBuilder \<Rightarrow> LinodeInstanceBuilder" where
  "SetImage img e = e\<lparr>b_Image := img\<rparr>"

definition SetBooted :: "bool \<Rightarrow> LinodeInstanceBuilder \<Rightarrow> LinodeInstanceBuilder" where
  "SetBooted booted e = e\<lparr>b_Booted := booted\<rparr>"

definition SetBackupsEnabled :: "bool \<Rightarrow> LinodeInstanceBuilder \<Rightarrow> LinodeInstanceBuilder" where
  "SetBackupsEnabled enabled e = e\<lparr>b_BackupsEnabled := enabled\<rparr>"

definition SetRootPass :: "string \<Rightarrow> LinodeInstanceBuilder \<Rightarrow> LinodeInstanceBuilder" where
  "SetRootPass rootPass e = e\<lparr>b_RootPass := rootPass\<rparr>"

definition SetAuthorizedKeysR :: "string list \<Rightarrow> LinodeInstanceRebuilder \<Rightarrow> LinodeInstanceRebuilder" where
  "SetAuthorizedKeysR keys r = r\<lparr>r_AuthorizedKeys := keys\<rparr>"

definition SetImageR :: "string \<Rightarrow> LinodeInstanceRebuilder \<Rightarrow> LinodeInstanceRebuilder" where
  "SetImageR img r = r\<lparr>r_Image := img\<rparr>"

definition SetBootedR :: "bool \<Rightarrow> LinodeInstanceRebuilder \<Rightarrow> LinodeInstanceRebuilder" where
  "SetBootedR booted r = r\<lparr>r_Booted := booted\<rparr>"

definition SetRootPassR :: "string \<Rightarrow> LinodeInstanceRebuilder \<Rightarrow> LinodeInstanceRebuilder" where
  "SetRootPassR rootPass r = r\<lparr>r_RootPass := rootPass\<rparr>"

subsection \<open>The operations\<close>

text \<open>
  \<open>CreateTunnel\<close>. The result of the guard's \<open>WriteError\<close> is dropped and control goes
  on to the validation, as in the source (that call is not a \<open>return\<close> statement).
\<close>

definition CreateTunnel ::
  "protobufLinode \<Rightarrow> LinodeCreateTunnelRequest \<Rightarrow> world \<Rightarrow> error option outcome \<times> world" where
  "CreateTunnel p args w =
     (let api = NewLinodeAPI (extractAuth (c_Auth args)) in
      case ensureTunnelDoesNotExist api (instanceLabel p) w of
        (Panic s, w1) \<Rightarrow> (Panic s, w1)
      | (Return guard, w1) \<Rightarrow>
          (let w2 = (case guard of
                       Some e \<Rightarrow> snd (WriteError (createCreateTunnelErr e) e w1)
                     | None \<Rightarrow> w1)
           in
             if length (c_Plan args) = 0 then
               (let e = Fundamental ''Linode plan is empty or missing''
                in WriteError (createCreateTunnelErr e) e w2)
             else if length (c_Region args) = 0 then
               (let e = Fundamental ''Linode region is empty or missing''
                in WriteError (createCreateTunnelErr e) e w2)
             else
               (let tunnelBuilder =
                      SetRootPass (c_RootPassword args)
                        (SetBackupsEnabled False
                          (SetBooted True
                            (SetImage (instanceImage p)
                              (SetAuthorizedKeys (c_SshKeys args)
                                (SetLabel (instanceLabel p)
                                  (NewInstanceBuilder api (c_Region args) (c_Plan args)))))))
                in
                  case makeStackScriptParams api (instanceScript p)
                         (c_RegularAccountName args) (c_RegularAccountPassword args)
                         (c_WireguardOptions args) (c_Obfsproxy4Options args)
                         (c_Obfsproxy6Options args) w2 of
                    (Panic s, w3) \<Rightarrow> (Panic s, w3)
                  | (Return (Inl e), w3) \<Rightarrow> WriteError (createCreateTunnelErr e) e w3
                  | (Return (Inr (script, params)), w3) \<Rightarrow>
                      (case Create (SetStackscript (ss_ID script) [params] tunnelBuilder) w3 of
                         (Panic s, w4) \<Rightarrow> (Panic s, w4)
                       | (Return (Inl e), w4) \<Rightarrow> WriteError (createCreateTunnelErr e) e w4
                       | (Return (Inr instance), w4) \<Rightarrow>
                           (case awaitUntilRunning api (li_ID instance) w4 of
                              (Panic s, w5) \<Rightarrow> (Panic s, w5)
                            | (Return (Inr latest), w5) \<Rightarrow>
                                WriteMessage
                                  (createCreateTunnelOK (linodeInstanceToProtobuf w5 latest)) w5
                            | (Return (Inl awaitErr), w5) \<Rightarrow>
                                WriteMessage
                                  (createCreateTunnelOK (linodeInstanceToProtobuf w5 instance)) w5)))))"

definition RebuildTunnel ::
  "protobufLinode \<Rightarrow> LinodeRebuildTunnelRequest \<Rightarrow> world \<Rightarrow> error option outcome \<times> world" where
  "RebuildTunnel p args w =
     (let api = NewLinodeAPI (extractAuth (rb_Auth args)) in
      case ensureTunnelExists api (instanceLabel p) w of
        (Panic s, w1) \<Rightarrow> (Panic s, w1)
      | (Return (Inl e), w1) \<Rightarrow> WriteError (createRebuildTunnelErr e) e w1
      | (Return (Inr tunnel), w1) \<Rightarrow>
          (let tunnelRebuilder =
                 SetRootPassR (rb_RootPassword args)
                   (SetImageR (instanceImage p)
                     (SetBootedR True
                       (SetAuthorizedKeysR (rb_SshKeys args)
                         (NewInstanceRebuilder api (li_ID tunnel)))))
           in
             case makeStackScriptParams api (instanceScript p)
                    (rb_RegularAccountName args) (rb_RegularAccountPassword args)
                    (rb_WireguardOptions args) (rb_Obfsproxy4Options args)
                    (rb_Obfsproxy6Options args) w1 of
               (Panic s, w2) \<Rightarrow> (Panic s, w2)
             | (Return (Inl e), w2) \<Rightarrow> WriteError (createRebuildTunnelErr e) e w2
             | (Return (Inr (script, params)), w2) \<Rightarrow>
                 (case Rebuild (SetStackscriptR (ss_ID script) [params] tunnelRebuilder) w2 of
                    (Panic s, w3) \<Rightarrow> (Panic s, w3)
                  | (Return (Inl e), w3) \<Rightarrow> WriteError (createRebuildTunnelErr e) e w3
                  | (Return (Inr instance), w3) \<Rightarrow>
                      (case awaitUntilRunning api (li_ID instance) w3 of
                         (Panic s, w4) \<Rightarrow> (Panic s, w4)
                       | (Return (Inr latest), w4) \<Rightarrow>
                           WriteMessage
                             (createRebuildTunnelOK (linodeInstanceToProtobuf w4 latest)) w4
                       | (Return (Inl awaitErr), w4) \<Rightarrow>
                           WriteMessage
                             (createRebuildTunnelOK (linodeInstanceToProtobuf w4 instance)) w4))))"

definition DestroyTunnel ::
  "protobufLinode \<Rightarrow> LinodeAuth option \<Rightarrow> world \<Rightarrow> error option outcome \<times> world" where
  "DestroyTunnel p auth w =
     (let api = NewLinodeAPI (extractAuth auth) in
      case ensureTunnelExists api (instanceLabel p) w of
        (Panic s, w1) \<Rightarrow> (Panic s, w1)
      | (Return (Inl e), w1) \<Rightarrow> WriteError (createDestroyTunnelErr e) e w1
      | (Return (Inr tunnel), w1) \<Rightarrow>
          (case DeleteInstance api (li_ID tunnel) w1 of
             (Panic s, w2) \<Rightarrow> (Panic s, w2)
           | (Return (Some e), w2) \<Rightarrow> WriteError (createDestroyTunnelErr e) e w2
           | (Return None, w2) \<Rightarrow> WriteMessage createDestroyTunnelOK w2))"

definition TunnelStatus ::
  "protobufLinode \<Rightarrow> LinodeAuth option \<Rightarrow> world \<Rightarrow> error option outcome \<times> world" where
  "TunnelStatus p auth w =
     (let api = NewLinodeAPI (extractAuth auth) in
      case ensureTunnelExists api (instanceLabel p) w of
        (Panic s, w1) \<Rightarrow> (Panic s, w1)
      | (Return (Inl e), w1) \<Rightarrow> WriteError (createTunnelStatusErr e) e w1
      | (Return (Inr tunnel), w1) \<Rightarrow>
          WriteMessage (createTunnelStatusOK (linodeInstanceToProtobuf w1 tunnel)) w1)"

definition ListInstances ::
  "protobufLinode \<Rightarrow> LinodeAuth option \<Rightarrow> world \<Rightarrow> error option outcome \<times> world" where
  "ListInstances p auth w =
     (case ListLinodeInstances (NewLinodeAPI (extractAuth auth)) w of
        (Panic s, w1) \<Rightarrow> (Panic s, w1)
      | (Return (instances, Some e), w1) \<Rightarrow> WriteError (createListInstancesErr e) e w1
      | (Return (instances, None), w1) \<Rightarrow>
          WriteMessage (createListInstancesOK (map (linodeInstanceToProtobuf w1) instances)) w1)"

definition ListStackScripts ::
  "protobufLinode \<Rightarrow> LinodeAuth option \<Rightarrow> world \<Rightarrow> error option outcome \<times> world" where
  "ListStackScripts p auth w =
     (case ListStackScriptsPrivate (NewLinodeAPI (extractAuth auth)) w of
        (Panic s, w1) \<Rightarrow> (Panic s, w1)
      | (Return (scripts, Some e), w1) \<Rightarrow> WriteError (createListStackScriptsErr e) e w1
      | (Return (scripts, None), w1) \<Rightarrow>
          WriteMessage
            (createListStackScriptsOK
               (map (\<lambda>script. \<lparr>ps_Id = ss_ID script, ps_Label = ss_Label script,
                                ps_Description = ss_Description script\<rparr>) scripts)) w1)"

section \<open>Worlds and requests for the concrete runs\<close>

definition no_key_panic :: string where
  "no_key_panic = ''Attempted to perform authenticated request, but this LinodeAPI instance has no API key''"

definition demo_instance :: "go_int \<Rightarrow> string \<Rightarrow> LinodeStatus \<Rightarrow> LinodeInfo" where
  "demo_instance ident label status =
     \<lparr>li_ID = ident, li_Region = ''eu-west'', li_Image = ''linode/debian9'', li_IPv4 = [''192.0.2.1''],
      li_IPv6 = ''2001:db8::1/64'', li_Label = label, li_Group = [], li_Type = ''g6-nanode-1'',
      li_Status = status, li_CreatedAt = ''2018-01-01T00:00:00'', li_Updated = ''2018-01-01T00:00:00'',
      li_Hypervisor = ''kvm'', li_Specs = \<lparr>Disk = 25600, Memory = 1024, VCPUs = 1, Transfer = 1000\<rparr>\<rparr>"

definition demo_script :: "go_int \<Rightarrow> string \<Rightarrow> StackScript" where
  "demo_script ident label =
     \<lparr>ss_ID = ident, ss_Label = label, ss_Description = [], ss_Images = [''linode/debian9''],
      ss_IsPublic = False\<rparr>"

definition ok_response :: "payload \<Rightarrow> reply" where
  "ok_response x = Responded \<lparr>StatusCode = 200, ResultOf = x, ErrorOf = NoErrorObject\<rparr>"

definition not_found :: reply where
  "not_found = Responded \<lparr>StatusCode = 404, ResultOf = DummyP, ErrorOf = NoErrorObject\<rparr>"

text \<open>
  A provider that serves a listing split into pages: the page asked for by the \<open>page\<close>
  query parameter (page 1 without it), in an envelope that gives the page count.
\<close>

definition requested_page :: "request \<Rightarrow> nat \<Rightarrow> nat option" where
  "requested_page r n =
     (case map_of (QueryParam r) ''page'' of
        None \<Rightarrow> (if 0 < n then Some 0 else None)
      | Some s \<Rightarrow> find (\<lambda>k. Itoa (word_of_nat (k + 1)) = s) [0..<n])"

definition serve_pages :: "('a paginated \<Rightarrow> payload) \<Rightarrow> 'a list list \<Rightarrow> request \<Rightarrow> reply" where
  "serve_pages wrap pages r =
     (case requested_page r (length pages) of
        None \<Rightarrow> not_found
      | Some k \<Rightarrow>
          ok_response (wrap \<lparr>Pages = word_of_nat (length pages),
                             Results = word_of_nat (length (concat pages)),
                             Data = pages ! k, Page = word_of_nat (k + 1)\<rparr>))"

text \<open>
  A provider with an instance listing, a script catalog, the instance that a creation or
  a rebuild returns, and scripted replies to the status polls of that instance: the
  poll that is network call number \<open>first_poll + i\<close> of the run gets \<open>polls ! i\<close>.
\<close>

definition demo_provider ::
  "LinodeInfo list list \<Rightarrow> StackScript list list \<Rightarrow> LinodeInfo \<Rightarrow> nat \<Rightarrow> reply list \<Rightarrow>
   nat \<Rightarrow> string \<Rightarrow> string \<Rightarrow> request \<Rightarrow> reply" where
  "demo_provider instances scripts created first_poll polls n method url r =
     (if method = ''GET'' \<and> url = linodeAPIBaseURL @ ''/linode/instances''
      then serve_pages InfoPageP instances r
      else if method = ''GET'' \<and> url = linodeAPIBaseURL @ ''/linode/stackscripts''
      then serve_pages ScriptPageP scripts r
      else if method = ''POST'' \<and>
              (url = linodeAPIBaseURL @ ''/linode/instances'' \<or>
               url = linodeAPIBaseURL @ ''/linode/instances/'' @ Itoa (li_ID created) @ ''/rebuild'')
      then ok_response (InfoP created)
      else if method = ''GET'' \<and> url = linodeAPIBaseURL @ ''/linode/instances/'' @ Itoa (li_ID created)
              \<and> first_poll \<le> n \<and> n - first_poll < length polls
      then polls ! (n - first_poll)
      else not_found)"

definition demo_world ::
  "LinodeInfo list list \<Rightarrow> StackScript list list \<Rightarrow> LinodeInfo \<Rightarrow> nat \<Rightarrow> reply list \<Rightarrow> world" where
  "demo_world instances scripts created first_poll polls =
     \<lparr>provider = demo_provider instances scripts created first_poll polls,
      write_result = (\<lambda>m. None),
      status_value = (\<lambda>s. if s = ''running'' then 2 else 0),
      trace = []\<rparr>"

definition quiet_world :: world where
  "quiet_world =
     \<lparr>provider = (\<lambda>n method url r. Failed None (TransportErr ''connection refused'')),
      write_result = (\<lambda>m. None),
      status_value = (\<lambda>s. 0),
      trace = []\<rparr>"

text \<open>A world whose provider gives one fixed reply.\<close>

definition reply_world :: "reply \<Rightarrow> world" where
  "reply_world x =
     \<lparr>provider = (\<lambda>n method url r. x),
      write_result = (\<lambda>m. None),
      status_value = (\<lambda>s. 0),
      trace = []\<rparr>"

definition demo_api :: LinodeAPI where
  "demo_api = NewLinodeAPI ''token''"

definition demo_create_request :: LinodeCreateTunnelRequest where
  "demo_create_request =
     \<lparr>c_Auth = Some \<lparr>AccessToken = ''token''\<rparr>, c_Plan = ''g6-nanode-1'', c_Region = ''eu-west'',
      c_SshKeys = [], c_RootPassword = ''root-secret'', c_RegularAccountName = ''user'',
      c_RegularAccountPassword = ''user-secret'', c_WireguardOptions = None,
      c_Obfsproxy4Options = Some \<lparr>o4_Port = 443, o4_Secret = ''s3cret''\<rparr>,
      c_Obfsproxy6Options = None\<rparr>"

definition demo_rebuild_request :: LinodeRebuildTunnelRequest where
  "demo_rebuild_request =
     \<lparr>rb_Auth = Some \<lparr>AccessToken = ''token''\<rparr>,
      rb_SshKeys = [], rb_RootPassword = ''root-secret'', rb_RegularAccountName = ''user'',
      rb_RegularAccountPassword = ''user-secret'', rb_WireguardOptions = None,
      rb_Obfsproxy4Options = Some \<lparr>o4_Port = 443, o4_Secret = ''s3cret''\<rparr>,
      rb_Obfsproxy6Options = None\<rparr>"

text \<open>A one-line reading of an event.\<close>

fun describe :: "event \<Rightarrow> string" where
  "describe (NetCall m u r) = m @ '' '' @ u"
| "describe (Slept d) = ''sleep '' @ digits (nat (d div Second)) @ ''s''"
| "describe (WroteMessage m) = ''reply''"
| "describe (WroteError m e) = ''error reply: '' @ Error e"

definition denied :: "go_int \<Rightarrow> response" where
  "denied code =
     \<lparr>StatusCode = code, ResultOf = DummyP,
      ErrorOf = LinodeErrorObject
        \<lparr>Errors = [\<lparr>Field = [], Reason = ''Invalid Token''\<rparr>], isAuthError = False,
         isPermissionsError = False\<rparr>\<rparr>"

definition bare :: "go_int \<Rightarrow> response" where
  "bare code = \<lparr>StatusCode = code, ResultOf = DummyP, ErrorOf = NoErrorObject\<rparr>"

text \<open>The error of an \<open>apiResult\<close>, when the call returned.\<close>

fun err_of :: "apiResult outcome \<times> world \<Rightarrow> error option" where
  "err_of (Return res, w) = err res"
| "err_of (Panic s, w) = None"

text \<open>The parameter map of \<open>demo_create_request\<close>.\<close>

definition demo_params :: params where
  "demo_params =
     [''udf_local_user_name'' \<mapsto> StrV ''user'',
      ''udf_local_user_password'' \<mapsto> StrV ''user-secret'',
      ''udf_enable_wireguard'' \<mapsto> IntV 0,
      ''udf_enable_obfs4'' \<mapsto> IntV 1,
      ''udf_obfs4_port'' \<mapsto> PortV 443,
      ''udf_obfs4_secret'' \<mapsto> StrV ''s3cret'',
      ''udf_enable_obfs6'' \<mapsto> IntV 0]"

definition catalog_world :: world where
  "catalog_world = demo_world [] [[demo_script 10 ''freedom_node'']] (demo_instance 2 ''hp_instance'' ''provisioning'') 0 []"

definition two_pages :: world where
  "two_pages =
     demo_world [[demo_instance 1 ''hp_instance'' ''running''], [demo_instance 2 ''database'' ''running'']]
       [] (demo_instance 3 ''hp_instance'' ''provisioning'') 0 []"

definition occupied :: world where
  "occupied =
     demo_world [[demo_instance 1 ''hp_instance'' ''running'']] [[demo_script 10 ''freedom_node'']]
       (demo_instance 2 ''hp_instance'' ''provisioning'') 3
       [ok_response (InfoP (demo_instance 2 ''hp_instance'' ''running''))]"

definition tunnel_first :: world where
  "tunnel_first =
     demo_world [[demo_instance 1 ''hp_instance'' ''running'', demo_instance 2 ''database'' ''running'']]
       [] (demo_instance 3 ''hp_instance'' ''provisioning'') 0 []"

definition script_first :: world where
  "script_first =
     demo_world [] [[demo_script 10 ''freedom_node'', demo_script 11 ''backup_job'']]
       (demo_instance 3 ''hp_instance'' ''provisioning'') 0 []"

text \<open>The script that \<open>makeStackScriptParams\<close> hands back, without the parameter map.\<close>

fun chosen_script :: "(error + StackScript \<times> params) outcome \<Rightarrow> (error + StackScript) outcome" where
  "chosen_script (Return (Inr (script, ps))) = Return (Inr script)"
| "chosen_script (Return (Inl e)) = Return (Inl e)"
| "chosen_script (Panic s) = Panic s"

definition poll_call :: "LinodeAPI \<Rightarrow> go_int \<Rightarrow> event" where
  "poll_call api ident =
     NetCall ''GET'' (linodeAPIBaseURL @ ''/linode/instances/'' @ Itoa ident)
       (SetResult InfoTarget (R (api_client api)))"

fun poll_events :: "event \<Rightarrow> nat \<Rightarrow> event list" where
  "poll_events q 0 = []"
| "poll_events q (Suc 0) = [q]"
| "poll_events q (Suc (Suc n)) = q # Slept delay # poll_events q (Suc n)"

text \<open>The reply to the poll that is network call \<open>i\<close> is a snapshot that is not running.\<close>

definition still_pending ::
  "(nat \<Rightarrow> string \<Rightarrow> string \<Rightarrow> request \<Rightarrow> reply) \<Rightarrow> LinodeAPI \<Rightarrow> go_int \<Rightarrow> nat \<Rightarrow> bool" where
  "still_pending prov api ident i =
     (case prov i ''GET'' (linodeAPIBaseURL @ ''/linode/instances/'' @ Itoa ident)
             (SetResult InfoTarget (R (api_client api))) of
        Responded response \<Rightarrow>
          \<not> 299 <s StatusCode response \<and>
          (case ResultOf response of
             InfoP snapshot \<Rightarrow> li_Status snapshot \<noteq> LinodeStatusRunning
           | _ \<Rightarrow> False)
      | Failed response e \<Rightarrow> False)"

definition now_running ::
  "(nat \<Rightarrow> string \<Rightarrow> string \<Rightarrow> request \<Rightarrow> reply) \<Rightarrow> LinodeAPI \<Rightarrow> go_int \<Rightarrow> nat \<Rightarrow> LinodeInfo \<Rightarrow> bool" where
  "now_running prov api ident i snapshot =
     (case prov i ''GET'' (linodeAPIBaseURL @ ''/linode/instances/'' @ Itoa ident)
             (SetResult InfoTarget (R (api_client api))) of
        Responded response \<Rightarrow>
          \<not> 299 <s StatusCode response \<and> ResultOf response = InfoP snapshot \<and>
          li_Status snapshot = LinodeStatusRunning
      | Failed response e \<Rightarrow> False)"

definition converging_world :: world where
  "converging_world =
     demo_world [[]] [] (demo_instance 2 ''hp_instance'' ''provisioning'') 0
       [ok_response (InfoP (demo_instance 2 ''hp_instance'' ''provisioning'')),
        ok_response (InfoP (demo_instance 2 ''hp_instance'' ''provisioning'')),
        ok_response (InfoP (demo_instance 2 ''hp_instance'' ''running''))]"

definition slow_world :: world where
  "slow_world =
     demo_world [[]] [] (demo_instance 2 ''hp_instance'' ''provisioning'') 0
       (replicate 20 (ok_response (InfoP (demo_instance 2 ''hp_instance'' ''provisioning''))))"

definition refused :: error where
  "refused = Wrapf (TransportErr ''connection refused'')
               (''GET request ('' @ quote @ ''/linode/instances/2'' @ quote @ '') failed'')"

text \<open>An event that is a GET of the listing at the given endpoint.\<close>

fun listing_call :: "string \<Rightarrow> event \<Rightarrow> bool" where
  "listing_call endpoint (NetCall m u r) = (m = ''GET'' \<and> u = linodeAPIBaseURL @ endpoint)"
| "listing_call endpoint (WroteError m e) = False"
| "listing_call endpoint (Slept d) = False"
| "listing_call endpoint (WroteMessage m) = False"

definition missing_region :: LinodeCreateTunnelRequest where
  "missing_region = demo_create_request\<lparr>c_Region := []\<rparr>"

definition empty_account :: world where
  "empty_account = demo_world [[]] [] (demo_instance 2 ''hp_instance'' ''provisioning'') 0 []"

text \<open>The builder as \<open>CreateTunnel\<close> configures it before the script is attached.\<close>

definition create_builder ::
  "protobufLinode \<Rightarrow> LinodeAPI \<Rightarrow> LinodeCreateTunnelRequest \<Rightarrow> LinodeInstanceBuilder" where
  "create_builder p api args =
     SetRootPass (c_RootPassword args)
       (SetBackupsEnabled False
         (SetBooted True
           (SetImage (instanceImage p)
             (SetAuthorizedKeys (c_SshKeys args)
               (SetLabel (instanceLabel p)
                 (NewInstanceBuilder api (c_Region args) (c_Plan args)))))))"

text \<open>The rebuilder as \<open>RebuildTunnel\<close> configures it before the script is attached.\<close>

definition rebuild_builder ::
  "protobufLinode \<Rightarrow> LinodeAPI \<Rightarrow> LinodeRebuildTunnelRequest \<Rightarrow> go_int \<Rightarrow> LinodeInstanceRebuilder" where
  "rebuild_builder p api args ident =
     SetRootPassR (rb_RootPassword args)
       (SetImageR (instanceImage p)
         (SetBootedR True
           (SetAuthorizedKeysR (rb_SshKeys args)
             (NewInstanceRebuilder api ident))))"

definition poll_error :: error where
  "poll_error = Wrapf (TransportErr ''i/o timeout'')
                  (''GET request ('' @ quote @ ''/linode/instances/2'' @ quote @ '') failed'')"

definition create_poll_fails :: world where
  "create_poll_fails =
     demo_world [[]] [[demo_script 10 ''freedom_node'']]
       (demo_instance 2 ''hp_instance'' ''provisioning'') 3
       [Failed None (TransportErr ''i/o timeout'')]"

definition cw1 :: world where
  "cw1 = snd (ensureTunnelDoesNotExist demo_api ''hp_instance'' create_poll_fails)"

definition cw2 :: world where
  "cw2 = snd (ListStackScriptsPrivate demo_api cw1)"

definition cw3 :: world where
  "cw3 = snd (Create (SetStackscript 10 [demo_params]
                        (create_builder newProtobufLinode demo_api demo_create_request)) cw2)"

definition cw4 :: world where
  "cw4 = snd (awaitUntilRunning demo_api 2 cw3)"

definition rebuild_poll_fails :: world where
  "rebuild_poll_fails =
     demo_world [[demo_instance 2 ''hp_instance'' ''running'']] [[demo_script 10 ''freedom_node'']]
       (demo_instance 2 ''hp_instance'' ''rebuilding'') 3
       [Failed None (TransportErr ''i/o timeout'')]"

definition rw1 :: world where
  "rw1 = snd (ensureTunnelExists demo_api ''hp_instance'' rebuild_poll_fails)"

definition rw2 :: world where
  "rw2 = snd (ListStackScriptsPrivate demo_api rw1)"

definition rw3 :: world where
  "rw3 = snd (Rebuild (SetStackscriptR 10 [demo_params]
                         (rebuild_builder newProtobufLinode demo_api demo_rebuild_request 2)) rw2)"

definition rw4 :: world where
  "rw4 = snd (awaitUntilRunning demo_api 2 rw3)"

text \<open>The replies written during a run, in order.\<close>

fun written :: "event list \<Rightarrow> Response list" where
  "written [] = []"
| "written (WroteMessage m # es) = m # written es"
| "written (WroteError m e # es) = m # written es"
| "written (NetCall m u r # es) = written es"
| "written (Slept d # es) = written es"

section \<open>Basic facts\<close>

lemma world_emit [simp]:
  "provider (emit e w) = provider w"
  "write_result (emit e w) = write_result w"
  "status_value (emit e w) = status_value w"
  "trace (emit e w) = trace w @ [e]"
  by (simp_all add: emit_def)

lemma apiKey_NewLinodeAPI: "apiKey (NewLinodeAPI k) = k"
  by (simp add: NewLinodeAPI_def)

lemma ListLinodeInstances_no_key:
  "apiKey api = [] \<Longrightarrow> ListLinodeInstances api w = (Panic no_key_panic, w)"
  by (simp add: ListLinodeInstances_def authedR_def no_key_panic_def)

lemma ListStackScriptsPrivate_no_key:
  "apiKey api = [] \<Longrightarrow> ListStackScriptsPrivate api w = (Panic no_key_panic, w)"
  by (simp add: ListStackScriptsPrivate_def authedR_def no_key_panic_def)

lemma retrieveTunnelInstance_no_key:
  "apiKey api = [] \<Longrightarrow> retrieveTunnelInstance api name w = (Panic no_key_panic, w)"
  by (simp add: retrieveTunnelInstance_def ListLinodeInstances_no_key)

section \<open>C10: an absent or empty access token\<close>

text \<open>
  C10. For each authenticated operation (create, rebuild, destroy, status, list-instances,
  list-scripts), a request whose auth field is absent or whose access token is the empty
  string makes the construction of the first authenticated provider request panic: the
  operation ends in that panic, with no network call made and no reply written (the
  world is unchanged).
\<close>

theorem C10_missing_token_panics:
  assumes "auth = None \<or> (\<exists>a. auth = Some a \<and> AccessToken a = [])"
  shows "CreateTunnel p (cargs\<lparr>c_Auth := auth\<rparr>) w = (Panic no_key_panic, w)
       \<and> RebuildTunnel p (rargs\<lparr>rb_Auth := auth\<rparr>) w = (Panic no_key_panic, w)
       \<and> DestroyTunnel p auth w = (Panic no_key_panic, w)
       \<and> TunnelStatus p auth w = (Panic no_key_panic, w)
       \<and> ListInstances p auth w = (Panic no_key_panic, w)
       \<and> ListStackScripts p auth w = (Panic no_key_panic, w)"
proof -
  from assms have k: "apiKey (NewLinodeAPI (extractAuth auth)) = []"
    by (auto simp: extractAuth_def apiKey_NewLinodeAPI)
  have g: "\<And>name. retrieveTunnelInstance (NewLinodeAPI (extractAuth auth)) name w = (Panic no_key_panic, w)"
    using k by (rule retrieveTunnelInstance_no_key)
  have 1: "CreateTunnel p (cargs\<lparr>c_Auth := auth\<rparr>) w = (Panic no_key_panic, w)"
    by (simp add: CreateTunnel_def ensureTunnelDoesNotExist_def g)
  have 2: "RebuildTunnel p (rargs\<lparr>rb_Auth := auth\<rparr>) w = (Panic no_key_panic, w)"
    by (simp add: RebuildTunnel_def ensureTunnelExists_def g)
  have 3: "DestroyTunnel p auth w = (Panic no_key_panic, w)"
    by (simp add: DestroyTunnel_def ensureTunnelExists_def g)
  have 4: "TunnelStatus p auth w = (Panic no_key_panic, w)"
    by (simp add: TunnelStatus_def ensureTunnelExists_def g)
  have 5: "ListInstances p auth w = (Panic no_key_panic, w)"
    by (simp add: ListInstances_def ListLinodeInstances_no_key [OF k])
  have 6: "ListStackScripts p auth w = (Panic no_key_panic, w)"
    by (simp add: ListStackScripts_def ListStackScriptsPrivate_no_key [OF k])
  from 1 2 3 4 5 6 show ?thesis by simp
qed

theorem C10_missing_token_panics_witness:
  "CreateTunnel newProtobufLinode (demo_create_request\<lparr>c_Auth := None\<rparr>) quiet_world
     = (Panic no_key_panic, quiet_world)
   \<and> RebuildTunnel newProtobufLinode (demo_rebuild_request\<lparr>rb_Auth := None\<rparr>) quiet_world
     = (Panic no_key_panic, quiet_world)
   \<and> DestroyTunnel newProtobufLinode None quiet_world = (Panic no_key_panic, quiet_world)
   \<and> TunnelStatus newProtobufLinode None quiet_world = (Panic no_key_panic, quiet_world)
   \<and> ListInstances newProtobufLinode None quiet_world = (Panic no_key_panic, quiet_world)
   \<and> ListStackScripts newProtobufLinode None quiet_world = (Panic no_key_panic, quiet_world)"
  using C10_missing_token_panics
          [of None newProtobufLinode demo_create_request quiet_world demo_rebuild_request]
  by simp

section \<open>C7: classification of provider errors\<close>

text \<open>
  C7 (as amended). For every provider response with a status above 299: the result has no
  data; if a structured provider error was decoded, the error is that structured error
  with its auth flag set to "status is 401" and its permission flag set to "status is
  403"; if there is no error object, the error is a generic one whose message names the
  method and the endpoint (and says that the details are missing). The status is not
  part of the generic error.
\<close>

theorem C7_error_classification:
  assumes m: "method \<in> set [''GET'', ''POST'', ''DELETE'', ''HEAD'', ''PUT'', ''PATCH'']"
    and reply: "provider w (ncalls w) method (linodeAPIBaseURL @ endpoint) r = Responded response"
    and status: "299 <s StatusCode response"
  shows "\<exists>res. linodeSimpleExec method endpoint r w
                 = (Return res, emit (NetCall method (linodeAPIBaseURL @ endpoint) r) w)
           \<and> data res = None \<and> resp res = Some response
           \<and> (\<forall>e. ErrorOf response = LinodeErrorObject e \<longrightarrow>
                 err res = Some (LinodeErr (e\<lparr>isAuthError := (StatusCode response = 401),
                                                isPermissionsError := (StatusCode response = 403)\<rparr>)))
           \<and> (ErrorOf response = NoErrorObject \<longrightarrow>
                 err res = Some (Fundamental
                   (''API error ('' @ method @ '' '' @ quote @ endpoint @ quote
                      @ ''): No error object, details missing'')))"
  using m reply status
  by (cases "ErrorOf response") (auto simp: linodeSimpleExec_def execRequest_def api_error_text_def)

theorem C7_error_classification_witness:
  "err_of (linodeSimpleExec ''GET'' ''/linode/instances'' (R (api_client demo_api))
             (reply_world (Responded (denied 401))))
     = Some (LinodeErr \<lparr>Errors = [\<lparr>Field = [], Reason = ''Invalid Token''\<rparr>], isAuthError = True,
                         isPermissionsError = False\<rparr>)
   \<and> err_of (linodeSimpleExec ''GET'' ''/linode/instances'' (R (api_client demo_api))
             (reply_world (Responded (denied 403))))
     = Some (LinodeErr \<lparr>Errors = [\<lparr>Field = [], Reason = ''Invalid Token''\<rparr>], isAuthError = False,
                         isPermissionsError = True\<rparr>)
   \<and> err_of (linodeSimpleExec ''GET'' ''/linode/instances'' (R (api_client demo_api))
             (reply_world (Responded (bare 500))))
     = Some (Fundamental (''API error (GET '' @ quote @ ''/linode/instances'' @ quote
                            @ ''): No error object, details missing''))"
proof -
  let ?r = "R (api_client demo_api)"
  have a: "\<And>x. provider (reply_world x) (ncalls (reply_world x)) ''GET''
                 (linodeAPIBaseURL @ ''/linode/instances'') ?r = x"
    by (simp add: reply_world_def)
  have m: "''GET'' \<in> set [''GET'', ''POST'', ''DELETE'', ''HEAD'', ''PUT'', ''PATCH'']" by simp
  have s1: "299 <s StatusCode (denied 401)" by (simp add: denied_def word_sless_alt)
  have s2: "299 <s StatusCode (denied 403)" by (simp add: denied_def word_sless_alt)
  have s3: "299 <s StatusCode (bare 500)" by (simp add: bare_def word_sless_alt)
  show ?thesis
    using C7_error_classification [OF m a s1] C7_error_classification [OF m a s2]
      C7_error_classification [OF m a s3]
    by (auto simp: denied_def bare_def)
qed

text \<open>
  The claim as stated has the generic error carry the raw status. It does not: status 500
  and status 503 give the same error value, whose message has no status in it.
\<close>

theorem C7_generic_error_counterexample:
  "err_of (linodeSimpleExec ''GET'' ''/linode/instances'' (R (api_client demo_api))
             (reply_world (Responded (bare 500))))
     = Some (Fundamental (''API error (GET '' @ quote @ ''/linode/instances'' @ quote
                            @ ''): No error object, details missing''))
   \<and> err_of (linodeSimpleExec ''GET'' ''/linode/instances'' (R (api_client demo_api))
             (reply_world (Responded (bare 503))))
     = Some (Fundamental (''API error (GET '' @ quote @ ''/linode/instances'' @ quote
                            @ ''): No error object, details missing''))"
  by code_simp

section \<open>C9: the provisioning parameters\<close>

lemma catalog_listing:
  "fst (ListStackScriptsPrivate demo_api catalog_world) = Return ([demo_script 10 ''freedom_node''], None)"
  by code_simp

lemma demo_makeStackScriptParams:
  "fst (makeStackScriptParams demo_api ''freedom_node'' ''user'' ''user-secret'' None
          (Some \<lparr>o4_Port = 443, o4_Secret = ''s3cret''\<rparr>) None catalog_world)
     = Return (Inr (demo_script 10 ''freedom_node'', demo_params))"
proof -
  obtain w' where "ListStackScriptsPrivate demo_api catalog_world
      = (Return ([demo_script 10 ''freedom_node''], None), w')"
    using catalog_listing by (metis prod.collapse)
  then show ?thesis
    by (simp add: makeStackScriptParams_def demo_params_def demo_script_def loop_var_def)
qed

text \<open>
  C9. Whenever the parameter builder produces a map, the map holds the account user name
  and password, and for each of wireguard, obfs4 and obfs6 an enable flag that is 1 when
  the feature's options are present and 0 when they are absent; the feature's own fields
  (port, key or secret, and for wireguard the peer keys joined by single spaces) are
  present exactly when its options are. The witness is the wireguard-disabled,
  obfs4-enabled input of the claim.
\<close>

theorem C9_provisioning_parameters:
  assumes "fst (makeStackScriptParams api scriptName username password wg obfs4 obfs6 w)
             = Return (Inr (script, ps))"
  shows "ps ''udf_local_user_name'' = Some (StrV username)
       \<and> ps ''udf_local_user_password'' = Some (StrV password)
       \<and> ps ''udf_enable_wireguard'' = Some (IntV (if wg = None then 0 else 1))
       \<and> ps ''udf_wireguard_port'' = map_option (\<lambda>x. PortV (wg_Port x)) wg
       \<and> ps ''udf_wireguard_private_key'' = map_option (\<lambda>x. StrV (wg_ServerKey x)) wg
       \<and> ps ''udf_wireguard_peer_keys'' = map_option (\<lambda>x. StrV (Join (wg_PeerKeys x) '' '')) wg
       \<and> ps ''udf_enable_obfs4'' = Some (IntV (if obfs4 = None then 0 else 1))
       \<and> ps ''udf_obfs4_port'' = map_option (\<lambda>x. PortV (o4_Port x)) obfs4
       \<and> ps ''udf_obfs4_secret'' = map_option (\<lambda>x. StrV (o4_Secret x)) obfs4
       \<and> ps ''udf_enable_obfs6'' = Some (IntV (if obfs6 = None then 0 else 1))
       \<and> ps ''udf_obfs6_port'' = map_option (\<lambda>x. PortV (o6_Port x)) obfs6
       \<and> ps ''udf_obfs6_secret'' = map_option (\<lambda>x. StrV (o6_Secret x)) obfs6"
  using assms
  by (cases wg; cases obfs4; cases obfs6)
     (auto simp: makeStackScriptParams_def Let_def split: prod.splits outcome.splits option.splits)

theorem C9_provisioning_parameters_witness:
  "fst (makeStackScriptParams demo_api ''freedom_node'' ''user'' ''user-secret'' None
          (Some \<lparr>o4_Port = 443, o4_Secret = ''s3cret''\<rparr>) None catalog_world)
     = Return (Inr (demo_script 10 ''freedom_node'', demo_params))
   \<and> demo_params ''udf_local_user_name'' = Some (StrV ''user'')
   \<and> demo_params ''udf_local_user_password'' = Some (StrV ''user-secret'')
   \<and> demo_params ''udf_enable_wireguard'' = Some (IntV 0)
   \<and> demo_params ''udf_wireguard_port'' = None
   \<and> demo_params ''udf_wireguard_private_key'' = None
   \<and> demo_params ''udf_wireguard_peer_keys'' = None
   \<and> demo_params ''udf_enable_obfs4'' = Some (IntV 1)
   \<and> demo_params ''udf_obfs4_port'' = Some (PortV 443)
   \<and> demo_params ''udf_obfs4_secret'' = Some (StrV ''s3cret'')
   \<and> demo_params ''udf_enable_obfs6'' = Some (IntV 0)
   \<and> demo_params ''udf_obfs6_port'' = None
   \<and> demo_params ''udf_obfs6_secret'' = None"
  using C9_provisioning_parameters [OF demo_makeStackScriptParams] demo_makeStackScriptParams
  by simp

section \<open>C1: pagination\<close>

text \<open>
  C1. The claim is that listing N pages yields all N pages' items. On a listing of two
  pages the code fetches page 1 only: after the fetch the counter is 2, \<open>2 < 2\<close> is
  false, and the loop ends. The instance of page 2 is missing from the result.
\<close>

theorem C1_second_page_is_lost:
  "fst (ListLinodeInstances demo_api two_pages)
     = Return ([demo_instance 1 ''hp_instance'' ''running''], None)
   \<and> map describe (trace (snd (ListLinodeInstances demo_api two_pages)))
     = [''GET https://api.linode.com/v4/linode/instances'']"
  by code_simp

section \<open>C2: creation when the tunnel exists\<close>

text \<open>
  C2. The claim is that a creation whose guard finds a tunnel fails with "already exists",
  creates nothing and writes one reply. Here the guard finds the tunnel, the error reply
  is written, and the operation goes on: it lists the scripts, posts the creation, polls,
  and writes a second reply.
\<close>

theorem C2_guard_failure_goes_on:
  "fst (ensureTunnelDoesNotExist demo_api ''hp_instance'' occupied)
     = Return (Some (Fundamental ''Tunnel already exists''))
   \<and> map describe (trace (snd (CreateTunnel newProtobufLinode demo_create_request occupied)))
     = [''GET https://api.linode.com/v4/linode/instances'',
        ''error reply: Tunnel already exists'',
        ''GET https://api.linode.com/v4/linode/stackscripts'',
        ''POST https://api.linode.com/v4/linode/instances'',
        ''sleep 14s'',
        ''GET https://api.linode.com/v4/linode/instances/2'',
        ''reply'']"
  by code_simp

section \<open>C4: the instance that the role guard returns\<close>

text \<open>
  C4. The claim is that \<open>ensureTunnelExists\<close> returns the matching instance (the first
  one when several match). The listing here has the tunnel first and another instance
  after it; exactly one label has the prefix. The pointer kept by the loop is the loop
  variable's, which holds the last listed instance when the loop ends: the instance
  returned is the other one.
\<close>

theorem C4_last_listed_instance_is_returned:
  "fst (ensureTunnelExists demo_api ''hp_instance'' tunnel_first)
     = Return (Inr (demo_instance 2 ''database'' ''running''))"
  by code_simp

section \<open>C8: the script that the parameter builder selects\<close>

text \<open>
  C8. The claim is that the entry whose label equals the requested label is selected. The
  catalog here has the requested script first and another script after it. The pointer
  kept by the loop is the loop variable's, which holds the last catalog entry when the
  loop ends: the script returned is the other one.
\<close>

theorem C8_last_catalog_entry_is_returned:
  "chosen_script (fst (makeStackScriptParams demo_api ''freedom_node'' ''user'' ''user-secret''
                         None None None script_first))
     = Return (Inr (demo_script 11 ''backup_job''))"
  by code_simp

section \<open>Facts about the poller\<close>

lemma ncalls_emit_NetCall [simp]: "ncalls (emit (NetCall m u r) w) = Suc (ncalls w)"
  by (simp add: ncalls_def)

lemma ncalls_emit_other [simp]:
  "ncalls (emit (Slept d) w) = ncalls w"
  "ncalls (emit (WroteMessage x) w) = ncalls w"
  "ncalls (emit (WroteError x e) w) = ncalls w"
  by (simp_all add: ncalls_def)

lemma linodeSimpleExec_GET_world:
  "snd (linodeSimpleExec ''GET'' endpoint r w) = emit (NetCall ''GET'' (linodeAPIBaseURL @ endpoint) r) w"
  by (simp add: linodeSimpleExec_def execRequest_def split: reply.splits)

lemma linodeSimpleExec_GET_returns:
  "\<exists>res. fst (linodeSimpleExec ''GET'' endpoint r w) = Return res \<and> (err res = None \<longrightarrow> resp res \<noteq> None)"
  by (simp add: linodeSimpleExec_def execRequest_def split: reply.splits)

lemma QueryLinode_world:
  "apiKey api \<noteq> [] \<Longrightarrow> snd (QueryLinode api ident w) = emit (poll_call api ident) w"
  using linodeSimpleExec_GET_world [of "''/linode/instances/'' @ Itoa ident" "SetResult InfoTarget (R (api_client api))" w]
  by (auto simp: QueryLinode_def authedR_def linodeGET_def poll_call_def Let_def
           split: prod.splits outcome.splits option.splits payload.splits)

lemma QueryLinode_returns:
  "apiKey api \<noteq> [] \<Longrightarrow> \<exists>x. fst (QueryLinode api ident w) = Return x"
  using linodeSimpleExec_GET_returns [of "''/linode/instances/'' @ Itoa ident" "SetResult InfoTarget (R (api_client api))" w]
  by (auto simp: QueryLinode_def authedR_def linodeGET_def Let_def
           split: prod.splits outcome.splits option.splits payload.splits)

lemma QueryLinode_error_is_not_timeout:
  "fst (QueryLinode api ident w) = Return (Inl e) \<Longrightarrow> e \<noteq> timeout_error"
  by (auto simp: QueryLinode_def authedR_def linodeGET_def Let_def linodeSimpleExec_def
                 execRequest_def timeout_error_def Wrapf_def api_error_text_def decode_error_def
           split: prod.splits outcome.splits option.splits payload.splits reply.splits
                  if_splits error_object.splits)

lemma QueryLinode_pending:
  assumes "apiKey api \<noteq> []" "still_pending (provider w) api ident (ncalls w)"
  shows "\<exists>snapshot. fst (QueryLinode api ident w) = Return (Inr snapshot)
           \<and> li_Status snapshot \<noteq> LinodeStatusRunning"
  using assms
  by (auto simp: QueryLinode_def authedR_def linodeGET_def Let_def linodeSimpleExec_def
                 execRequest_def still_pending_def
           split: reply.splits payload.splits)

lemma QueryLinode_running:
  assumes "apiKey api \<noteq> []" "now_running (provider w) api ident (ncalls w) snapshot"
  shows "fst (QueryLinode api ident w) = Return (Inr snapshot)"
  using assms
  by (auto simp: QueryLinode_def authedR_def linodeGET_def Let_def linodeSimpleExec_def
                 execRequest_def now_running_def
           split: reply.splits payload.splits)

lemma poll_events_Suc: "1 \<le> k \<Longrightarrow> poll_events q (Suc k) = q # Slept delay # poll_events q k"
  by (cases k) simp_all

lemma await_loop_polls:
  "apiKey api \<noteq> [] \<Longrightarrow> attempt < maxAttempts \<Longrightarrow>
   \<exists>k. 1 \<le> k \<and> k \<le> maxAttempts - attempt
      \<and> trace (snd (await_loop api ident attempt w)) = trace w @ poll_events (poll_call api ident) k"
proof (induction api ident attempt w rule: await_loop.induct)
  case (1 api ident attempt w)
  let ?q = "QueryLinode api ident w"
  have w': "snd ?q = emit (poll_call api ident) w" using "1.prems"(1) by (rule QueryLinode_world)
  obtain x where x: "fst ?q = Return x" using QueryLinode_returns [OF "1.prems"(1)] by blast
  have q: "?q = (Return x, emit (poll_call api ident) w)" using w' x by (metis prod.collapse)
  have one: "1 \<le> (1::nat) \<and> 1 \<le> maxAttempts - attempt
     \<and> trace (emit (poll_call api ident) w) = trace w @ poll_events (poll_call api ident) 1"
    using "1.prems"(2) by simp
  show ?case
  proof (cases x)
    case (Inl e)
    then show ?thesis using q one by (subst await_loop.simps) (auto simp del: poll_events.simps)
  next
    case (Inr snapshot)
    show ?thesis
    proof (cases "li_Status snapshot = LinodeStatusRunning \<or> attempt + 1 \<ge> maxAttempts")
      case True
      then show ?thesis using q one Inr
        by (subst await_loop.simps) (auto simp del: poll_events.simps)
    next
      case False
      then have a: "attempt + 1 < maxAttempts" and nr: "li_Status snapshot \<noteq> LinodeStatusRunning" by auto
      from "1.IH" [OF q [symmetric] refl Inr _ _ "1.prems"(1) a] nr a
      obtain k where k: "1 \<le> k" "k \<le> maxAttempts - (attempt + 1)"
        "trace (snd (await_loop api ident (attempt + 1) (Sleep delay (emit (poll_call api ident) w))))
           = trace (Sleep delay (emit (poll_call api ident) w)) @ poll_events (poll_call api ident) k"
        by auto
      have "await_loop api ident attempt w
              = await_loop api ident (attempt + 1) (Sleep delay (emit (poll_call api ident) w))"
        using q Inr nr a by (subst await_loop.simps) simp
      then have "trace (snd (await_loop api ident attempt w))
              = trace w @ poll_events (poll_call api ident) (Suc k)"
        using k by (simp add: Sleep_def poll_events_Suc)
      moreover have "1 \<le> Suc k" "Suc k \<le> maxAttempts - attempt" using k a by auto
      ultimately show ?thesis by blast
    qed
  qed
qed

lemma world_Sleep [simp]:
  "provider (Sleep d w) = provider w"
  "trace (Sleep d w) = trace w @ [Slept d]"
  "ncalls (Sleep d w) = ncalls w"
  by (simp_all add: Sleep_def)

lemma QueryLinode_eq:
  "apiKey api \<noteq> [] \<Longrightarrow> fst (QueryLinode api ident w) = x
   \<Longrightarrow> QueryLinode api ident w = (x, emit (poll_call api ident) w)"
  using QueryLinode_world [of api ident w] by (metis prod.collapse)

lemma ncalls_poll_call [simp]: "ncalls (emit (poll_call api ident) w) = Suc (ncalls w)"
  by (simp add: poll_call_def)

lemma await_loop_step:
  assumes "apiKey api \<noteq> []" "still_pending (provider w) api ident (ncalls w)"
    "attempt + 1 < maxAttempts"
  shows "await_loop api ident attempt w
           = await_loop api ident (attempt + 1) (Sleep delay (emit (poll_call api ident) w))"
proof -
  obtain snapshot where s: "fst (QueryLinode api ident w) = Return (Inr snapshot)"
    "li_Status snapshot \<noteq> LinodeStatusRunning"
    using QueryLinode_pending [OF assms(1,2)] by blast
  show ?thesis
    using QueryLinode_eq [OF assms(1) s(1)] s(2) assms(3) by (subst await_loop.simps) simp
qed

lemma await_loop_last:
  assumes "apiKey api \<noteq> []" "still_pending (provider w) api ident (ncalls w)"
    "attempt + 1 \<ge> maxAttempts"
  shows "await_loop api ident attempt w = (Return (Inl timeout_error), emit (poll_call api ident) w)"
proof -
  obtain snapshot where s: "fst (QueryLinode api ident w) = Return (Inr snapshot)"
    "li_Status snapshot \<noteq> LinodeStatusRunning"
    using QueryLinode_pending [OF assms(1,2)] by blast
  show ?thesis
    using QueryLinode_eq [OF assms(1) s(1)] s(2) assms(3) by (subst await_loop.simps) simp
qed

lemma await_loop_done:
  assumes "apiKey api \<noteq> []" "now_running (provider w) api ident (ncalls w) snapshot"
  shows "await_loop api ident attempt w = (Return (Inr snapshot), emit (poll_call api ident) w)"
proof -
  have q: "fst (QueryLinode api ident w) = Return (Inr snapshot)"
    using QueryLinode_running [OF assms] .
  have r: "li_Status snapshot = LinodeStatusRunning"
    using assms(2) by (auto simp: now_running_def split: reply.splits)
  show ?thesis
    using QueryLinode_eq [OF assms(1) q] r by (subst await_loop.simps) simp
qed

lemma await_loop_abort:
  "QueryLinode api ident w = (Return (Inl e), w') \<Longrightarrow>
   await_loop api ident attempt w = (Return (Inl e), w')"
  by (subst await_loop.simps) simp

lemma await_loop_converges:
  "apiKey api \<noteq> [] \<Longrightarrow> attempt + j < maxAttempts \<Longrightarrow>
   (\<forall>n<j. still_pending (provider w) api ident (ncalls w + n)) \<Longrightarrow>
   now_running (provider w) api ident (ncalls w + j) snapshot \<Longrightarrow>
   await_loop api ident attempt w
     = (Return (Inr snapshot), w\<lparr>trace := trace w @ poll_events (poll_call api ident) (Suc j)\<rparr>)"
proof (induction j arbitrary: attempt w)
  case 0
  then show ?case by (simp add: await_loop_done emit_def)
next
  case (Suc j)
  let ?w = "Sleep delay (emit (poll_call api ident) w)"
  have p0: "still_pending (provider w) api ident (ncalls w)" using Suc.prems(3) by force
  have step: "await_loop api ident attempt w = await_loop api ident (attempt + 1) ?w"
    using Suc.prems(1) p0 Suc.prems(2) by (intro await_loop_step) auto
  have "\<forall>n<j. still_pending (provider ?w) api ident (ncalls ?w + n)"
    using Suc.prems(3) by (auto simp: )
  moreover have "now_running (provider ?w) api ident (ncalls ?w + j) snapshot"
    using Suc.prems(4) by simp
  moreover have "attempt + 1 + j < maxAttempts" using Suc.prems(2) by simp
  ultimately have "await_loop api ident (attempt + 1) ?w
     = (Return (Inr snapshot), ?w\<lparr>trace := trace ?w @ poll_events (poll_call api ident) (Suc j)\<rparr>)"
    using Suc.IH [of "attempt + 1" ?w] Suc.prems(1) by blast
  then show ?case using step by (simp add: Sleep_def emit_def)
qed

lemma await_loop_times_out:
  "apiKey api \<noteq> [] \<Longrightarrow> attempt + Suc j = maxAttempts \<Longrightarrow>
   (\<forall>n<Suc j. still_pending (provider w) api ident (ncalls w + n)) \<Longrightarrow>
   await_loop api ident attempt w
     = (Return (Inl timeout_error), w\<lparr>trace := trace w @ poll_events (poll_call api ident) (Suc j)\<rparr>)"
proof (induction j arbitrary: attempt w)
  case 0
  then show ?case by (simp add: await_loop_last emit_def)
next
  case (Suc j)
  let ?w = "Sleep delay (emit (poll_call api ident) w)"
  have p0: "still_pending (provider w) api ident (ncalls w)" using Suc.prems(3) by force
  have step: "await_loop api ident attempt w = await_loop api ident (attempt + 1) ?w"
    using Suc.prems(1) p0 Suc.prems(2) by (intro await_loop_step) auto
  have "\<forall>n<Suc j. still_pending (provider ?w) api ident (ncalls ?w + n)"
  proof (intro allI impI)
    fix n assume "n < Suc j"
    then have "Suc n < Suc (Suc j)" by simp
    then have "still_pending (provider w) api ident (ncalls w + Suc n)" using Suc.prems(3) by blast
    then show "still_pending (provider ?w) api ident (ncalls ?w + n)" by simp
  qed
  moreover have "attempt + 1 + Suc j = maxAttempts" using Suc.prems(2) by simp
  ultimately have "await_loop api ident (attempt + 1) ?w
     = (Return (Inl timeout_error), ?w\<lparr>trace := trace ?w @ poll_events (poll_call api ident) (Suc j)\<rparr>)"
    using Suc.IH [of "attempt + 1" ?w] Suc.prems(1) by blast
  then show ?case using step by (simp add: Sleep_def emit_def)
qed

section \<open>C6: the convergence poller\<close>

text \<open>
  C6. The poller first sleeps two polling intervals, and the interval is 7 seconds; it
  makes between 1 and 20 polls, with one interval's sleep between consecutive polls and
  nothing else. When the first two polls answer with a snapshot that is not running and
  the third with a running one (the scripted sequence provisioning, provisioning,
  running is the witness), it returns the running snapshot after exactly 3 polls. When
  20 polls in a row answer with a snapshot that is not running, it returns the timeout
  error after exactly 20 polls, and the timeout error differs from every error that a
  status query can return (a transport failure among them).
\<close>

theorem C6_convergence_poller:
  assumes key: "apiKey api \<noteq> []"
  shows "delay = 7 * Second \<and> maxAttempts = 20
       \<and> (\<exists>k. 1 \<le> k \<and> k \<le> 20
              \<and> trace (snd (awaitUntilRunning api ident w))
                  = trace w @ Slept (delay * 2) # poll_events (poll_call api ident) k)
       \<and> (still_pending (provider w2) api ident (ncalls w2)
            \<and> still_pending (provider w2) api ident (ncalls w2 + 1)
            \<and> now_running (provider w2) api ident (ncalls w2 + 2) snapshot
          \<longrightarrow> awaitUntilRunning api ident w2
                = (Return (Inr snapshot),
                   w2\<lparr>trace := trace w2 @ Slept (delay * 2) # poll_events (poll_call api ident) 3\<rparr>))
       \<and> ((\<forall>n<20. still_pending (provider w3) api ident (ncalls w3 + n))
          \<longrightarrow> awaitUntilRunning api ident w3
                = (Return (Inl timeout_error),
                   w3\<lparr>trace := trace w3 @ Slept (delay * 2) # poll_events (poll_call api ident) 20\<rparr>))
       \<and> (fst (QueryLinode api ident w4) = Return (Inl e) \<longrightarrow> e \<noteq> timeout_error)"
proof -
  have a: "delay = 7 * Second \<and> maxAttempts = 20"
    by (simp add: delay_def maxAttempts_def)
  have b: "\<exists>k. 1 \<le> k \<and> k \<le> 20
              \<and> trace (snd (awaitUntilRunning api ident w))
                  = trace w @ Slept (delay * 2) # poll_events (poll_call api ident) k"
    using await_loop_polls [OF key, of 0 ident "Sleep (delay * 2) w"]
    by (simp add: awaitUntilRunning_def maxAttempts_def)
  have c: "awaitUntilRunning api ident w2
                = (Return (Inr snapshot),
                   w2\<lparr>trace := trace w2 @ Slept (delay * 2) # poll_events (poll_call api ident) 3\<rparr>)"
    if "still_pending (provider w2) api ident (ncalls w2)"
       "still_pending (provider w2) api ident (ncalls w2 + 1)"
       "now_running (provider w2) api ident (ncalls w2 + 2) snapshot"
  proof -
    let ?w = "Sleep (delay * 2) w2"
    have "\<forall>n<2. still_pending (provider ?w) api ident (ncalls ?w + n)"
      using that(1,2) by (auto simp: less_Suc_eq numeral_2_eq_2)
    moreover have "now_running (provider ?w) api ident (ncalls ?w + 2) snapshot"
      using that(3) by simp
    ultimately have "await_loop api ident 0 ?w
       = (Return (Inr snapshot), ?w\<lparr>trace := trace ?w @ poll_events (poll_call api ident) (Suc 2)\<rparr>)"
      using await_loop_converges [OF key, of 0 2 ?w ident snapshot] by (simp add: maxAttempts_def)
    then show ?thesis
      by (simp add: awaitUntilRunning_def Sleep_def emit_def numeral_3_eq_3 numeral_2_eq_2)
  qed
  have d: "awaitUntilRunning api ident w3
                = (Return (Inl timeout_error),
                   w3\<lparr>trace := trace w3 @ Slept (delay * 2) # poll_events (poll_call api ident) 20\<rparr>)"
    if "\<forall>n<20. still_pending (provider w3) api ident (ncalls w3 + n)"
  proof -
    let ?w = "Sleep (delay * 2) w3"
    have "\<forall>n<Suc 19. still_pending (provider ?w) api ident (ncalls ?w + n)"
      using that by simp
    then have "await_loop api ident 0 ?w
       = (Return (Inl timeout_error), ?w\<lparr>trace := trace ?w @ poll_events (poll_call api ident) (Suc 19)\<rparr>)"
      using await_loop_times_out [OF key, of 0 19 ?w ident] by (simp add: maxAttempts_def)
    moreover have "Suc 19 = 20" by simp
    ultimately show ?thesis
      by (simp add: awaitUntilRunning_def Sleep_def emit_def)
  qed
  have e: "e \<noteq> timeout_error" if "fst (QueryLinode api ident w4) = Return (Inl e)"
    using that by (rule QueryLinode_error_is_not_timeout)
  from a b c d e show ?thesis by blast
qed

theorem C6_convergence_poller_witness:
  "apiKey demo_api \<noteq> []
   \<and> still_pending (provider converging_world) demo_api 2 0
   \<and> still_pending (provider converging_world) demo_api 2 1
   \<and> now_running (provider converging_world) demo_api 2 2 (demo_instance 2 ''hp_instance'' ''running'')
   \<and> awaitUntilRunning demo_api 2 converging_world
        = (Return (Inr (demo_instance 2 ''hp_instance'' ''running'')),
           converging_world\<lparr>trace := Slept (delay * 2) # poll_events (poll_call demo_api 2) 3\<rparr>)
   \<and> list_all (still_pending (provider slow_world) demo_api 2) [0..<20]
   \<and> awaitUntilRunning demo_api 2 slow_world
        = (Return (Inl timeout_error),
           slow_world\<lparr>trace := Slept (delay * 2) # poll_events (poll_call demo_api 2) 20\<rparr>)
   \<and> fst (QueryLinode demo_api 2 quiet_world) = Return (Inl refused)
   \<and> refused \<noteq> timeout_error"
proof -
  have key: "apiKey demo_api \<noteq> []" by (simp add: demo_api_def NewLinodeAPI_def)
  have n1: "ncalls converging_world = 0" "trace converging_world = []"
    by (simp_all add: converging_world_def demo_world_def ncalls_def)
  have n2: "ncalls slow_world = 0" "trace slow_world = []"
    by (simp_all add: slow_world_def demo_world_def ncalls_def)
  have p0: "still_pending (provider converging_world) demo_api 2 0" by code_simp
  have p1: "still_pending (provider converging_world) demo_api 2 1" by code_simp
  have p2: "now_running (provider converging_world) demo_api 2 2 (demo_instance 2 ''hp_instance'' ''running'')"
    by code_simp
  have s: "list_all (still_pending (provider slow_world) demo_api 2) [0..<20]" by code_simp
  then have s': "\<forall>n<20. still_pending (provider slow_world) demo_api 2 (ncalls slow_world + n)"
    by (simp add: list_all_iff n2 del: upt_Suc)
  have q: "fst (QueryLinode demo_api 2 quiet_world) = Return (Inl refused)" by code_simp
  note t = C6_convergence_poller [OF key, of 2 converging_world converging_world
             "demo_instance 2 ''hp_instance'' ''running''" slow_world quiet_world refused]
  have p0': "still_pending (provider converging_world) demo_api 2 (ncalls converging_world)"
    using p0 by (simp only: n1)
  have p1': "still_pending (provider converging_world) demo_api 2 (ncalls converging_world + 1)"
    using p1 by (simp only: n1 add_0)
  have p2': "now_running (provider converging_world) demo_api 2 (ncalls converging_world + 2)
               (demo_instance 2 ''hp_instance'' ''running'')"
    using p2 by (simp only: n1 add_0)
  have r1: "awaitUntilRunning demo_api 2 converging_world
        = (Return (Inr (demo_instance 2 ''hp_instance'' ''running'')),
           converging_world\<lparr>trace := trace converging_world @
              Slept (delay * 2) # poll_events (poll_call demo_api 2) 3\<rparr>)"
    using t p0' p1' p2' by blast
  have r2: "awaitUntilRunning demo_api 2 slow_world
        = (Return (Inl timeout_error),
           slow_world\<lparr>trace := trace slow_world @
              Slept (delay * 2) # poll_events (poll_call demo_api 2) 20\<rparr>)"
    using t s' by blast
  have r3: "refused \<noteq> timeout_error"
    using t q by blast
  show ?thesis
    using key p0 p1 p2 s q r3 r1 [unfolded n1(2) append_Nil] r2 [unfolded n2(2) append_Nil]
    by (intro conjI)
qed

section \<open>Facts about the instance listing\<close>

lemma next_effect:
  assumes "next e w = (out, e', w')"
  shows "w' = emit (NetCall ''GET'' (linodeAPIBaseURL @ it_endpoint e) (it_request e')) w
       \<and> it_endpoint e' = it_endpoint e \<and> (\<exists>x. out = Return x)"
proof -
  define e1 where "e1 = (if 1 <s it_page e
                then e\<lparr>it_request := SetQueryParam ''page'' (Itoa (it_page e)) (it_request e)\<rparr>
                else e)"
  have ep: "it_endpoint e1 = it_endpoint e" by (simp add: e1_def)
  obtain res :: apiResult where r: "fst (linodeSimpleExec ''GET'' (it_endpoint e1) (it_request e1) w) = Return res"
    "err res = None \<longrightarrow> resp res \<noteq> None"
    using linodeSimpleExec_GET_returns [of "it_endpoint e1" "it_request e1" w] by auto
  have x: "linodeSimpleExec ''GET'' (it_endpoint e1) (it_request e1) w
      = (Return res, emit (NetCall ''GET'' (linodeAPIBaseURL @ it_endpoint e1) (it_request e1)) w)"
    using r(1) linodeSimpleExec_GET_world [of "it_endpoint e1" "it_request e1" w]
    by (metis prod.collapse)
  have "next e w =
     (case linodeSimpleExec ''GET'' (it_endpoint e1) (it_request e1) w of
           (Panic s, w') \<Rightarrow> (Panic s, e1, w')
         | (Return result, w') \<Rightarrow>
             if err result \<noteq> None then (Return (result, False), e1, w')
             else
               (case resp result of
                  None \<Rightarrow> (Panic ''nil pointer dereference'', e1, w')
                | Some response \<Rightarrow>
                    (case pageCount (ResultOf response) of
                       None \<Rightarrow>
                         (Return (\<lparr>data = None,
                                   err = Some (Fundamental
                                     ''Possible API incompatibility: Unable to parse paginated response''),
                                   resp = Some response\<rparr>, False), e1, w')
                     | Some count \<Rightarrow>
                         (let e2 = e1\<lparr>it_page := it_page e1 + 1\<rparr>;
                              hasMorePages = (it_page e2 <s count)
                          in (Return (\<lparr>data = Some (page_data (ResultOf response)),
                                         err = None,
                                         resp = Some response\<rparr>, hasMorePages), e2, w')))))"
    unfolding next_def Let_def e1_def ..
  then show ?thesis
    using assms r(2) ep unfolding x
    by (auto simp: Let_def split: if_splits option.splits)
qed

lemma instances_loop_effect:
  "\<exists>x r0 rest. instances_loop iter l w
       = (Return x, w\<lparr>trace := trace w @ NetCall ''GET'' (linodeAPIBaseURL @ it_endpoint iter) r0 # rest\<rparr>)
     \<and> list_all (listing_call (it_endpoint iter)) rest"
proof (induction "remaining (it_page iter)" arbitrary: iter l w rule: less_induct)
  case less
  obtain out e' w' where n: "next iter w = (out, e', w')" by (metis prod.collapse)
  from next_effect [OF n] obtain item hasNext where
    w': "w' = emit (NetCall ''GET'' (linodeAPIBaseURL @ it_endpoint iter) (it_request e')) w"
    and ep: "it_endpoint e' = it_endpoint iter" and out: "out = Return (item, hasNext)"
    by (cases out) auto
  have base: "\<And>x :: LinodeInfo list \<times> error option. \<exists>xa r0 rest. (Return x, w')
       = (Return xa, w\<lparr>trace := trace w @ NetCall ''GET'' (linodeAPIBaseURL @ it_endpoint iter) r0 # rest\<rparr>)
     \<and> list_all (listing_call (it_endpoint iter)) rest"
  proof -
    fix x :: "LinodeInfo list \<times> error option"
    have "(Return x, w') = (Return x, w\<lparr>trace := trace w @
        NetCall ''GET'' (linodeAPIBaseURL @ it_endpoint iter) (it_request e') # []\<rparr>)
      \<and> list_all (listing_call (it_endpoint iter)) []"
      by (simp add: w' emit_def)
    then show "\<exists>xa r0 rest. (Return x, w')
       = (Return xa, w\<lparr>trace := trace w @ NetCall ''GET'' (linodeAPIBaseURL @ it_endpoint iter) r0 # rest\<rparr>)
     \<and> list_all (listing_call (it_endpoint iter)) rest" by blast
  qed
  show ?case
  proof (cases "err item = None \<and> (\<exists>moreItems. data item = Some (InfoListP moreItems)) \<and> hasNext")
    case False
    then show ?thesis
      using n out base
      by (subst instances_loop.simps) (auto split: option.splits payload.splits)
  next
    case True
    then obtain moreItems where m: "err item = None" "data item = Some (InfoListP moreItems)" "hasNext"
      by blast
    have n': "next iter w = (Return (item, True), e', w')" using n out m(3) by simp
    have pg: "it_page e' = it_page iter + 1" and nm: "it_page e' \<noteq> max_go_int"
      using next_more [OF n'] by blast+
    have "it_page iter + 1 \<noteq> max_go_int" using nm unfolding pg .
    then have "remaining (it_page iter + 1) < remaining (it_page iter)" by (rule remaining_step)
    then have "remaining (it_page e') < remaining (it_page iter)" unfolding pg .
    from less [OF this, of "l @ moreItems" w'] obtain x r0 rest where
      ih: "instances_loop e' (l @ moreItems) w'
         = (Return x, w'\<lparr>trace := trace w' @ NetCall ''GET'' (linodeAPIBaseURL @ it_endpoint e') r0 # rest\<rparr>)"
        "list_all (listing_call (it_endpoint e')) rest"
      by blast
    have "instances_loop iter l w = instances_loop e' (l @ moreItems) w'"
      using n out m by (subst instances_loop.simps) simp
    then have "instances_loop iter l w
       = (Return x, w\<lparr>trace := trace w @ NetCall ''GET'' (linodeAPIBaseURL @ it_endpoint iter) (it_request e')
             # (NetCall ''GET'' (linodeAPIBaseURL @ it_endpoint iter) r0 # rest)\<rparr>)"
      using ih(1) by (simp add: w' emit_def ep)
    moreover have "list_all (listing_call (it_endpoint iter))
                     (NetCall ''GET'' (linodeAPIBaseURL @ it_endpoint iter) r0 # rest)"
      using ih(2) by (simp add: ep)
    ultimately show ?thesis by blast
  qed
qed

lemma retrieveTunnelInstance_effect:
  assumes "apiKey api \<noteq> []"
  shows "\<exists>x r0 rest. retrieveTunnelInstance api name w
       = (Return x, w\<lparr>trace := trace w @ NetCall ''GET'' (linodeAPIBaseURL @ ''/linode/instances'') r0 # rest\<rparr>)
     \<and> list_all (listing_call ''/linode/instances'') rest"
proof -
  let ?iter = "linodePaginatedGET ''/linode/instances'' (SetResult InfoListTarget (R (api_client api))) InfoPageTarget"
  have e: "it_endpoint ?iter = ''/linode/instances''" by (simp add: linodePaginatedGET_def)
  obtain x r0 rest where l: "instances_loop ?iter [] w
       = (Return x, w\<lparr>trace := trace w @ NetCall ''GET'' (linodeAPIBaseURL @ ''/linode/instances'') r0 # rest\<rparr>)"
     "list_all (listing_call ''/linode/instances'') rest"
    using instances_loop_effect [of ?iter "[]" w] unfolding e by blast
  have "ListLinodeInstances api w
       = (Return x, w\<lparr>trace := trace w @ NetCall ''GET'' (linodeAPIBaseURL @ ''/linode/instances'') r0 # rest\<rparr>)"
    using assms l(1) by (simp add: ListLinodeInstances_def authedR_def)
  then show ?thesis using l(2)
    by (cases x) (auto simp: retrieveTunnelInstance_def split: option.splits prod.splits)
qed

section \<open>C3: creation with a missing plan or region\<close>

text \<open>
  C3 (as amended). For every creation request with a non-empty access token and an empty
  plan or region, on which the role guard passes (its lookup succeeds and finds no
  instance with the role prefix): the guard's lookup comes first, so the run starts with
  a GET of the instance listing; every network call of the run is a GET of the instance
  listing (no script listing, no creation, no status poll); and the run writes exactly
  one reply, the validation error ("Linode plan is empty or missing" when the plan is
  empty, otherwise "Linode region is empty or missing"), as its last event.
\<close>

theorem C3_validation_follows_the_guard:
  assumes token: "extractAuth (c_Auth args) \<noteq> []"
    and missing: "c_Plan args = [] \<or> c_Region args = []"
    and passes: "fst (ensureTunnelDoesNotExist (NewLinodeAPI (extractAuth (c_Auth args)))
                        (instanceLabel p) w) = Return None"
  shows "\<exists>r0 rest.
           fst (CreateTunnel p args w)
             = Return (write_result w
                 (createCreateTunnelErr
                    (Fundamental (if c_Plan args = [] then ''Linode plan is empty or missing''
                                  else ''Linode region is empty or missing''))))
         \<and> trace (snd (CreateTunnel p args w))
             = trace w @ NetCall ''GET'' (linodeAPIBaseURL @ ''/linode/instances'') r0 # rest
                 @ [WroteError
                      (createCreateTunnelErr
                         (Fundamental (if c_Plan args = [] then ''Linode plan is empty or missing''
                                       else ''Linode region is empty or missing'')))
                      (Fundamental (if c_Plan args = [] then ''Linode plan is empty or missing''
                                    else ''Linode region is empty or missing''))]
         \<and> list_all (listing_call ''/linode/instances'') rest"
proof -
  let ?api = "NewLinodeAPI (extractAuth (c_Auth args))"
  have key: "apiKey ?api \<noteq> []" using token by (simp add: apiKey_NewLinodeAPI)
  obtain x r0 rest where r: "retrieveTunnelInstance ?api (instanceLabel p) w
       = (Return x, w\<lparr>trace := trace w @ NetCall ''GET'' (linodeAPIBaseURL @ ''/linode/instances'') r0 # rest\<rparr>)"
     "list_all (listing_call ''/linode/instances'') rest"
    using retrieveTunnelInstance_effect [OF key] by blast
  let ?w1 = "w\<lparr>trace := trace w @ NetCall ''GET'' (linodeAPIBaseURL @ ''/linode/instances'') r0 # rest\<rparr>"
  have "\<exists>guard. ensureTunnelDoesNotExist ?api (instanceLabel p) w = (Return guard, ?w1)"
    using r(1) by (cases x) (auto simp: ensureTunnelDoesNotExist_def split: option.splits)
  then obtain guard where d: "ensureTunnelDoesNotExist ?api (instanceLabel p) w = (Return guard, ?w1)"
    by blast
  have "guard = None" using passes d by simp
  then have d': "ensureTunnelDoesNotExist ?api (instanceLabel p) w = (Return None, ?w1)"
    using d by simp
  have "fst (CreateTunnel p args w)
             = Return (write_result w
                 (createCreateTunnelErr
                    (Fundamental (if c_Plan args = [] then ''Linode plan is empty or missing''
                                  else ''Linode region is empty or missing''))))
         \<and> trace (snd (CreateTunnel p args w))
             = trace w @ NetCall ''GET'' (linodeAPIBaseURL @ ''/linode/instances'') r0 # rest
                 @ [WroteError
                      (createCreateTunnelErr
                         (Fundamental (if c_Plan args = [] then ''Linode plan is empty or missing''
                                       else ''Linode region is empty or missing'')))
                      (Fundamental (if c_Plan args = [] then ''Linode plan is empty or missing''
                                    else ''Linode region is empty or missing''))]"
    using d' missing
    by (auto simp: CreateTunnel_def Let_def WriteError_def emit_def)
  then show ?thesis using r(2) by blast
qed

theorem C3_validation_follows_the_guard_witness:
  "extractAuth (c_Auth missing_region) \<noteq> []
   \<and> (c_Plan missing_region = [] \<or> c_Region missing_region = [])
   \<and> fst (ensureTunnelDoesNotExist (NewLinodeAPI (extractAuth (c_Auth missing_region)))
             (instanceLabel newProtobufLinode) empty_account) = Return None
   \<and> (\<exists>r0 rest.
         fst (CreateTunnel newProtobufLinode missing_region empty_account)
           = Return (write_result empty_account
               (createCreateTunnelErr (Fundamental ''Linode region is empty or missing'')))
       \<and> trace (snd (CreateTunnel newProtobufLinode missing_region empty_account))
           = trace empty_account @ NetCall ''GET'' (linodeAPIBaseURL @ ''/linode/instances'') r0 # rest
               @ [WroteError
                    (createCreateTunnelErr (Fundamental ''Linode region is empty or missing''))
                    (Fundamental ''Linode region is empty or missing'')]
       \<and> list_all (listing_call ''/linode/instances'') rest)"
proof -
  have h1: "extractAuth (c_Auth missing_region) \<noteq> []"
    by (simp add: missing_region_def demo_create_request_def extractAuth_def)
  have h2: "c_Plan missing_region = [] \<or> c_Region missing_region = []"
    by (simp add: missing_region_def)
  have h3: "fst (ensureTunnelDoesNotExist (NewLinodeAPI (extractAuth (c_Auth missing_region)))
             (instanceLabel newProtobufLinode) empty_account) = Return None"
    by code_simp
  have np: "(c_Plan missing_region = []) = False"
    by (simp add: missing_region_def demo_create_request_def)
  show ?thesis
    using C3_validation_follows_the_guard [OF h1 h2 h3] h1 h2 h3
    unfolding np if_False by (intro conjI)
qed

text \<open>
  The claim as stated has the validation fail with no network call made. With the region
  missing, the instance listing is fetched before the validation error is written.
\<close>

theorem C3_guard_lookup_comes_first_counterexample:
  "map describe (trace (snd (CreateTunnel newProtobufLinode missing_region empty_account)))
     = [''GET https://api.linode.com/v4/linode/instances'',
        ''error reply: Linode region is empty or missing'']"
  by code_simp

section \<open>C5: an error during a status poll\<close>

lemma pair_from_fst: "fst x = a \<Longrightarrow> snd x = b \<Longrightarrow> x = (a, b)"
  by auto

lemma makeStackScriptParams_demo:
  assumes "fst (ListStackScriptsPrivate demo_api w) = Return ([demo_script 10 ''freedom_node''], None)"
  shows "makeStackScriptParams demo_api ''freedom_node'' ''user'' ''user-secret'' None
          (Some \<lparr>o4_Port = 443, o4_Secret = ''s3cret''\<rparr>) None w
     = (Return (Inr (demo_script 10 ''freedom_node'', demo_params)),
        snd (ListStackScriptsPrivate demo_api w))"
proof -
  obtain w' where l: "ListStackScriptsPrivate demo_api w
      = (Return ([demo_script 10 ''freedom_node''], None), w')"
    using assms by (metis prod.collapse)
  show ?thesis
    unfolding l
    by (simp add: makeStackScriptParams_def l demo_params_def demo_script_def loop_var_def)
qed

lemma CreateTunnel_after_failed_await:
  assumes "api = NewLinodeAPI (extractAuth (c_Auth args))"
    and "ensureTunnelDoesNotExist api (instanceLabel p) w = (Return None, w1)"
    and "c_Plan args \<noteq> []" and "c_Region args \<noteq> []"
    and "makeStackScriptParams api (instanceScript p)
           (c_RegularAccountName args) (c_RegularAccountPassword args)
           (c_WireguardOptions args) (c_Obfsproxy4Options args) (c_Obfsproxy6Options args) w1
         = (Return (Inr (script, ps)), w2)"
    and "Create (SetStackscript (ss_ID script) [ps] (create_builder p api args)) w2
         = (Return (Inr instance), w3)"
    and "awaitUntilRunning api (li_ID instance) w3 = (Return (Inl awaitErr), w4)"
  shows "CreateTunnel p args w
         = WriteMessage (createCreateTunnelOK (linodeInstanceToProtobuf w4 instance)) w4"
  using assms(2-) unfolding assms(1)
  by (simp add: CreateTunnel_def Let_def create_builder_def)

lemma RebuildTunnel_after_failed_await:
  assumes "api = NewLinodeAPI (extractAuth (rb_Auth args))"
    and "ensureTunnelExists api (instanceLabel p) w = (Return (Inr tunnel), w1)"
    and "makeStackScriptParams api (instanceScript p)
           (rb_RegularAccountName args) (rb_RegularAccountPassword args)
           (rb_WireguardOptions args) (rb_Obfsproxy4Options args) (rb_Obfsproxy6Options args) w1
         = (Return (Inr (script, ps)), w2)"
    and "Rebuild (SetStackscriptR (ss_ID script) [ps] (rebuild_builder p api args (li_ID tunnel))) w2
         = (Return (Inr instance), w3)"
    and "awaitUntilRunning api (li_ID instance) w3 = (Return (Inl awaitErr), w4)"
  shows "RebuildTunnel p args w
         = WriteMessage (createRebuildTunnelOK (linodeInstanceToProtobuf w4 instance)) w4"
  using assms(2-) unfolding assms(1)
  by (simp add: RebuildTunnel_def Let_def rebuild_builder_def)

text \<open>
  C5 (as amended). When a status query fails during polling, the poller returns that
  error at once, in the world the failed query left (no further poll, no sleep), at
  whatever attempt the loop is. After a creation (a rebuild) that succeeded, an error
  of the poller, be it a transport error or the timeout, is not propagated: the
  operation writes a success reply that carries the instance as the creation (the
  rebuild) returned it, unpolled.
\<close>

theorem C5_poll_error_degrades:
  "(QueryLinode api ident w = (Return (Inl e), w')
      \<longrightarrow> await_loop api ident attempt w = (Return (Inl e), w'))
   \<and> (capi = NewLinodeAPI (extractAuth (c_Auth cargs))
      \<and> ensureTunnelDoesNotExist capi (instanceLabel p) cw = (Return None, c1)
      \<and> c_Plan cargs \<noteq> [] \<and> c_Region cargs \<noteq> []
      \<and> makeStackScriptParams capi (instanceScript p)
           (c_RegularAccountName cargs) (c_RegularAccountPassword cargs)
           (c_WireguardOptions cargs) (c_Obfsproxy4Options cargs) (c_Obfsproxy6Options cargs) c1
         = (Return (Inr (cscript, cps)), c2)
      \<and> Create (SetStackscript (ss_ID cscript) [cps] (create_builder p capi cargs)) c2
         = (Return (Inr created), c3)
      \<and> awaitUntilRunning capi (li_ID created) c3 = (Return (Inl cerr), c4)
      \<longrightarrow> CreateTunnel p cargs cw
           = WriteMessage (createCreateTunnelOK (linodeInstanceToProtobuf c4 created)) c4)
   \<and> (rapi = NewLinodeAPI (extractAuth (rb_Auth rargs))
      \<and> ensureTunnelExists rapi (instanceLabel p) rw = (Return (Inr tunnel), r1)
      \<and> makeStackScriptParams rapi (instanceScript p)
           (rb_RegularAccountName rargs) (rb_RegularAccountPassword rargs)
           (rb_WireguardOptions rargs) (rb_Obfsproxy4Options rargs) (rb_Obfsproxy6Options rargs) r1
         = (Return (Inr (rscript, rps)), r2)
      \<and> Rebuild (SetStackscriptR (ss_ID rscript) [rps] (rebuild_builder p rapi rargs (li_ID tunnel))) r2
         = (Return (Inr rebuilt), r3)
      \<and> awaitUntilRunning rapi (li_ID rebuilt) r3 = (Return (Inl rerr), r4)
      \<longrightarrow> RebuildTunnel p rargs rw
           = WriteMessage (createRebuildTunnelOK (linodeInstanceToProtobuf r4 rebuilt)) r4)"
proof (intro conjI impI)
  assume "QueryLinode api ident w = (Return (Inl e), w')"
  then show "await_loop api ident attempt w = (Return (Inl e), w')"
    by (rule await_loop_abort)
next
  assume "capi = NewLinodeAPI (extractAuth (c_Auth cargs))
      \<and> ensureTunnelDoesNotExist capi (instanceLabel p) cw = (Return None, c1)
      \<and> c_Plan cargs \<noteq> [] \<and> c_Region cargs \<noteq> []
      \<and> makeStackScriptParams capi (instanceScript p)
           (c_RegularAccountName cargs) (c_RegularAccountPassword cargs)
           (c_WireguardOptions cargs) (c_Obfsproxy4Options cargs) (c_Obfsproxy6Options cargs) c1
         = (Return (Inr (cscript, cps)), c2)
      \<and> Create (SetStackscript (ss_ID cscript) [cps] (create_builder p capi cargs)) c2
         = (Return (Inr created), c3)
      \<and> awaitUntilRunning capi (li_ID created) c3 = (Return (Inl cerr), c4)"
  then show "CreateTunnel p cargs cw
           = WriteMessage (createCreateTunnelOK (linodeInstanceToProtobuf c4 created)) c4"
    by (elim conjE) (rule CreateTunnel_after_failed_await)
next
  assume "rapi = NewLinodeAPI (extractAuth (rb_Auth rargs))
      \<and> ensureTunnelExists rapi (instanceLabel p) rw = (Return (Inr tunnel), r1)
      \<and> makeStackScriptParams rapi (instanceScript p)
           (rb_RegularAccountName rargs) (rb_RegularAccountPassword rargs)
           (rb_WireguardOptions rargs) (rb_Obfsproxy4Options rargs) (rb_Obfsproxy6Options rargs) r1
         = (Return (Inr (rscript, rps)), r2)
      \<and> Rebuild (SetStackscriptR (ss_ID rscript) [rps] (rebuild_builder p rapi rargs (li_ID tunnel))) r2
         = (Return (Inr rebuilt), r3)
      \<and> awaitUntilRunning rapi (li_ID rebuilt) r3 = (Return (Inl rerr), r4)"
  then show "RebuildTunnel p rargs rw
           = WriteMessage (createRebuildTunnelOK (linodeInstanceToProtobuf r4 rebuilt)) r4"
    by (elim conjE) (rule RebuildTunnel_after_failed_await)
qed

theorem C5_poll_error_degrades_witness:
  "QueryLinode demo_api 2 cw3 = (Return (Inl poll_error), emit (poll_call demo_api 2) cw3)
   \<and> await_loop demo_api 2 0 cw3 = (Return (Inl poll_error), emit (poll_call demo_api 2) cw3)
   \<and> ensureTunnelDoesNotExist demo_api ''hp_instance'' create_poll_fails = (Return None, cw1)
   \<and> makeStackScriptParams demo_api ''freedom_node'' ''user'' ''user-secret'' None
        (Some \<lparr>o4_Port = 443, o4_Secret = ''s3cret''\<rparr>) None cw1
        = (Return (Inr (demo_script 10 ''freedom_node'', demo_params)), cw2)
   \<and> Create (SetStackscript 10 [demo_params]
               (create_builder newProtobufLinode demo_api demo_create_request)) cw2
        = (Return (Inr (demo_instance 2 ''hp_instance'' ''provisioning'')), cw3)
   \<and> awaitUntilRunning demo_api 2 cw3 = (Return (Inl poll_error), cw4)
   \<and> CreateTunnel newProtobufLinode demo_create_request create_poll_fails
        = WriteMessage
            (createCreateTunnelOK
               (linodeInstanceToProtobuf cw4 (demo_instance 2 ''hp_instance'' ''provisioning''))) cw4
   \<and> ensureTunnelExists demo_api ''hp_instance'' rebuild_poll_fails
        = (Return (Inr (demo_instance 2 ''hp_instance'' ''running'')), rw1)
   \<and> makeStackScriptParams demo_api ''freedom_node'' ''user'' ''user-secret'' None
        (Some \<lparr>o4_Port = 443, o4_Secret = ''s3cret''\<rparr>) None rw1
        = (Return (Inr (demo_script 10 ''freedom_node'', demo_params)), rw2)
   \<and> Rebuild (SetStackscriptR 10 [demo_params]
                (rebuild_builder newProtobufLinode demo_api demo_rebuild_request 2)) rw2
        = (Return (Inr (demo_instance 2 ''hp_instance'' ''rebuilding'')), rw3)
   \<and> awaitUntilRunning demo_api 2 rw3 = (Return (Inl poll_error), rw4)
   \<and> RebuildTunnel newProtobufLinode demo_rebuild_request rebuild_poll_fails
        = WriteMessage
            (createRebuildTunnelOK
               (linodeInstanceToProtobuf rw4 (demo_instance 2 ''hp_instance'' ''rebuilding''))) rw4"
proof -
  let ?created = "demo_instance 2 ''hp_instance'' ''provisioning''"
  let ?rebuilt = "demo_instance 2 ''hp_instance'' ''rebuilding''"
  let ?tunnel = "demo_instance 2 ''hp_instance'' ''running''"
  let ?script = "demo_script 10 ''freedom_node''"
  have key: "apiKey demo_api \<noteq> []" by (simp add: demo_api_def NewLinodeAPI_def)
  have capi: "demo_api = NewLinodeAPI (extractAuth (c_Auth demo_create_request))"
    by (simp add: demo_api_def demo_create_request_def extractAuth_def)
  have rapi: "demo_api = NewLinodeAPI (extractAuth (rb_Auth demo_rebuild_request))"
    by (simp add: demo_api_def demo_rebuild_request_def extractAuth_def)
  have pa: "instanceLabel newProtobufLinode = ''hp_instance''"
    "instanceScript newProtobufLinode = ''freedom_node''"
    by (simp_all add: newProtobufLinode_def)
  have ca: "c_RegularAccountName demo_create_request = ''user''"
    "c_RegularAccountPassword demo_create_request = ''user-secret''"
    "c_WireguardOptions demo_create_request = None"
    "c_Obfsproxy4Options demo_create_request = Some \<lparr>o4_Port = 443, o4_Secret = ''s3cret''\<rparr>"
    "c_Obfsproxy6Options demo_create_request = None"
    by (simp_all add: demo_create_request_def)
  have cv: "c_Plan demo_create_request \<noteq> []" "c_Region demo_create_request \<noteq> []"
    by (simp_all add: demo_create_request_def)
  have ra: "rb_RegularAccountName demo_rebuild_request = ''user''"
    "rb_RegularAccountPassword demo_rebuild_request = ''user-secret''"
    "rb_WireguardOptions demo_rebuild_request = None"
    "rb_Obfsproxy4Options demo_rebuild_request = Some \<lparr>o4_Port = 443, o4_Secret = ''s3cret''\<rparr>"
    "rb_Obfsproxy6Options demo_rebuild_request = None"
    by (simp_all add: demo_rebuild_request_def)
  have ids: "ss_ID ?script = 10" "li_ID ?created = 2" "li_ID ?rebuilt = 2" "li_ID ?tunnel = 2"
    by (simp_all add: demo_script_def demo_instance_def)
  have q0: "fst (QueryLinode demo_api 2 cw3) = Return (Inl poll_error)" by code_simp
  have q: "QueryLinode demo_api 2 cw3 = (Return (Inl poll_error), emit (poll_call demo_api 2) cw3)"
    using q0 QueryLinode_world [OF key, of 2 cw3] by (rule pair_from_fst)
  have g0: "fst (ensureTunnelDoesNotExist demo_api ''hp_instance'' create_poll_fails) = Return None"
    by code_simp
  have g: "ensureTunnelDoesNotExist demo_api ''hp_instance'' create_poll_fails = (Return None, cw1)"
    using g0 cw1_def [symmetric] by (rule pair_from_fst)
  have l0: "fst (ListStackScriptsPrivate demo_api cw1) = Return ([?script], None)" by code_simp
  have s: "makeStackScriptParams demo_api ''freedom_node'' ''user'' ''user-secret'' None
        (Some \<lparr>o4_Port = 443, o4_Secret = ''s3cret''\<rparr>) None cw1
        = (Return (Inr (?script, demo_params)), cw2)"
    using makeStackScriptParams_demo [OF l0] by (simp only: cw2_def)
  have c0: "fst (Create (SetStackscript 10 [demo_params]
               (create_builder newProtobufLinode demo_api demo_create_request)) cw2)
        = Return (Inr ?created)" by code_simp
  have c: "Create (SetStackscript 10 [demo_params]
               (create_builder newProtobufLinode demo_api demo_create_request)) cw2
        = (Return (Inr ?created), cw3)"
    using c0 cw3_def [symmetric] by (rule pair_from_fst)
  have a0: "fst (awaitUntilRunning demo_api 2 cw3) = Return (Inl poll_error)" by code_simp
  have a: "awaitUntilRunning demo_api 2 cw3 = (Return (Inl poll_error), cw4)"
    using a0 cw4_def [symmetric] by (rule pair_from_fst)
  have h0: "fst (ensureTunnelExists demo_api ''hp_instance'' rebuild_poll_fails) = Return (Inr ?tunnel)"
    by code_simp
  have h: "ensureTunnelExists demo_api ''hp_instance'' rebuild_poll_fails = (Return (Inr ?tunnel), rw1)"
    using h0 rw1_def [symmetric] by (rule pair_from_fst)
  have m0: "fst (ListStackScriptsPrivate demo_api rw1) = Return ([?script], None)" by code_simp
  have t: "makeStackScriptParams demo_api ''freedom_node'' ''user'' ''user-secret'' None
        (Some \<lparr>o4_Port = 443, o4_Secret = ''s3cret''\<rparr>) None rw1
        = (Return (Inr (?script, demo_params)), rw2)"
    using makeStackScriptParams_demo [OF m0] by (simp only: rw2_def)
  have d0: "fst (Rebuild (SetStackscriptR 10 [demo_params]
                (rebuild_builder newProtobufLinode demo_api demo_rebuild_request 2)) rw2)
        = Return (Inr ?rebuilt)" by code_simp
  have d: "Rebuild (SetStackscriptR 10 [demo_params]
                (rebuild_builder newProtobufLinode demo_api demo_rebuild_request 2)) rw2
        = (Return (Inr ?rebuilt), rw3)"
    using d0 rw3_def [symmetric] by (rule pair_from_fst)
  have b0: "fst (awaitUntilRunning demo_api 2 rw3) = Return (Inl poll_error)" by code_simp
  have b: "awaitUntilRunning demo_api 2 rw3 = (Return (Inl poll_error), rw4)"
    using b0 rw4_def [symmetric] by (rule pair_from_fst)
  note inst = C5_poll_error_degrades
    [of demo_api 2 cw3 poll_error "emit (poll_call demo_api 2) cw3" 0
        demo_api demo_create_request newProtobufLinode create_poll_fails cw1
        ?script demo_params cw2 ?created cw3 poll_error cw4
        demo_api demo_rebuild_request rebuild_poll_fails ?tunnel rw1
        ?script demo_params rw2 ?rebuilt rw3 poll_error rw4,
     unfolded pa ca ra ids]
  have r1: "await_loop demo_api 2 0 cw3 = (Return (Inl poll_error), emit (poll_call demo_api 2) cw3)"
    using inst q by blast
  have r2: "CreateTunnel newProtobufLinode demo_create_request create_poll_fails
        = WriteMessage (createCreateTunnelOK (linodeInstanceToProtobuf cw4 ?created)) cw4"
    using inst capi g cv s c a by blast
  have r3: "RebuildTunnel newProtobufLinode demo_rebuild_request rebuild_poll_fails
        = WriteMessage (createRebuildTunnelOK (linodeInstanceToProtobuf rw4 ?rebuilt)) rw4"
    using inst rapi h t d b by blast
  show ?thesis
    using q r1 g s c a r2 h t d b r3 by (intro conjI)
qed

text \<open>
  The claim as stated has a transport error during a poll fail the operation. Here the
  only poll fails with a transport error, and the creation ends with one reply, the
  success reply carrying the instance that the creation call returned.
\<close>

theorem C5_transport_error_counterexample:
  "fst (QueryLinode demo_api 2 cw3) = Return (Inl poll_error)
   \<and> map describe (trace (snd (CreateTunnel newProtobufLinode demo_create_request create_poll_fails)))
       = [''GET https://api.linode.com/v4/linode/instances'',
          ''GET https://api.linode.com/v4/linode/stackscripts'',
          ''POST https://api.linode.com/v4/linode/instances'',
          ''sleep 14s'',
          ''GET https://api.linode.com/v4/linode/instances/2'',
          ''reply'']
   \<and> written (trace (snd (CreateTunnel newProtobufLinode demo_create_request create_poll_fails)))
       = [CreateTunnelInstance
            (linodeInstanceToProtobuf create_poll_fails
               (demo_instance 2 ''hp_instance'' ''provisioning''))]
   \<and> fst (CreateTunnel newProtobufLinode demo_create_request create_poll_fails) = Return None"
  by code_simp

end
